theory Spec2Isabelle
  imports Main "HOL-Library.AList"
begin

section \<open>Values of request bodies and documents\<close>

text \<open>
  The controllers read the fields of \<^verbatim>\<open>req.body\<close> (parsed by \<^verbatim>\<open>express.json()\<close>) and
  of \<^verbatim>\<open>req.params\<close>. A field is one of the scalar JSON values, or \<^verbatim>\<open>undefined\<close> when the
  key is absent. Numbers are the integers (every identifier of the data model is one, and
  the code does no arithmetic on a request value); arrays and nested objects are not
  modelled.
\<close>

datatype jsval = JUndefined | JNull | JBool bool | JNum int | JStr string

text \<open>JavaScript truthiness, as tested by \<^verbatim>\<open>if (truckId)\<close>.\<close>

fun truthy :: "jsval \<Rightarrow> bool" where
  "truthy JUndefined = False"
| "truthy JNull = False"
| "truthy (JBool b) = b"
| "truthy (JNum n) = (n \<noteq> 0)"
| "truthy (JStr s) = (s \<noteq> [])"

section \<open>The libraries the controllers call\<close>

text \<open>
  express-validator, validator.js and Mongoose are not part of the repository. What the
  controllers use of them is a parameter of the model, so that every theorem below holds
  for each behaviour of these functions:
  \<^item> the validators of express-validator, as predicates on the field's value;
  \<^item> the sanitizer \<^verbatim>\<open>toDate()\<close>, which yields a date (milliseconds since the epoch) or
    \<^verbatim>\<open>null\<close>;
  \<^item> \<^verbatim>\<open>Number(s)\<close> on a non-empty string, used by Mongoose to cast a value to a
    \<^verbatim>\<open>Number\<close> path (\<open>None\<close> is \<^verbatim>\<open>NaN\<close>);
  \<^item> whether Mongoose drops a key whose value is \<^verbatim>\<open>undefined\<close> from a \<^verbatim>\<open>$set\<close>
    (as its versions from 6 on do) or stores \<^verbatim>\<open>null\<close> for it.
\<close>

record lib =
  isNumeric :: "jsval \<Rightarrow> bool"
  isString :: "jsval \<Rightarrow> bool"
  notEmpty :: "jsval \<Rightarrow> bool"
  isFloat_gt0 :: "jsval \<Rightarrow> bool"
  isISO8601 :: "jsval \<Rightarrow> bool"
  isInt :: "jsval \<Rightarrow> bool"
  isInt_min0 :: "jsval \<Rightarrow> bool"
  isIn :: "string list \<Rightarrow> jsval \<Rightarrow> bool"
  isMongoId :: "jsval \<Rightarrow> bool"
  toDate :: "jsval \<Rightarrow> int option"
  parseNumber :: "string \<Rightarrow> int option"
  omitUndefined :: bool

subsection \<open>Validation chains\<close>

text \<open>
  One entry of \<^verbatim>\<open>validationResult(req).array()\<close>: the field, the message and the
  offending value.
\<close>

record verror =
  err_path :: string
  err_msg :: string
  err_value :: jsval

text \<open>
  A chain \<^verbatim>\<open>body(field).v1().v2().withMessage(m).run(req)\<close> runs every validator on
  the value (there is no \<^verbatim>\<open>bail()\<close>) and records one error for each that fails.
  \<^verbatim>\<open>withMessage\<close> names the message of the validator just before it; the others report
  the default \<^verbatim>\<open>Invalid value\<close>. With \<^verbatim>\<open>optional()\<close> an absent field is skipped.
\<close>

definition Invalid_value :: string where
  "Invalid_value = ''Invalid value''"

definition runChain :: "string \<Rightarrow> bool \<Rightarrow> ((jsval \<Rightarrow> bool) \<times> string) list \<Rightarrow> jsval \<Rightarrow> verror list" where
  "runChain field optional validators v =
     (if optional \<and> v = JUndefined then []
      else map (\<lambda>(p, m). \<lparr>err_path = field, err_msg = m, err_value = v\<rparr>)
             (filter (\<lambda>(p, m). \<not> p v) validators))"

subsection \<open>Casting to a Number path\<close>

text \<open>
  Mongoose casts the value of a query filter or of an update on a \<^verbatim>\<open>Number\<close> path:
  \<^verbatim>\<open>null\<close>, \<^verbatim>\<open>undefined\<close> and the empty string give \<^verbatim>\<open>null\<close>, a string or boolean
  goes through \<^verbatim>\<open>Number()\<close>, and \<^verbatim>\<open>NaN\<close> raises a CastError.
\<close>

datatype cast = CastFail | CastNull | CastNum int

fun castNumber :: "lib \<Rightarrow> jsval \<Rightarrow> cast" where
  "castNumber L JUndefined = CastNull"
| "castNumber L JNull = CastNull"
| "castNumber L (JBool b) = CastNum (if b then 1 else 0)"
| "castNumber L (JNum n) = CastNum n"
| "castNumber L (JStr s) =
     (if s = [] then CastNull
      else case parseNumber L s of None \<Rightarrow> CastFail | Some n \<Rightarrow> CastNum n)"

section \<open>The entity store\<close>

text \<open>
  Modelled from the spec: the Mongoose schemas of \<^verbatim>\<open>Truck\<close>, \<^verbatim>\<open>Driver\<close>,
  \<^verbatim>\<open>Client\<close>, \<^verbatim>\<open>Shipment\<close> and \<^verbatim>\<open>Counter\<close> are missing from the sources. The
  documents carry the fields the controllers read and write. As in the data model of the
  specification, a numeric id is a number and a reference to another entity is the
  numeric id of that entity, or missing; a date is a number of milliseconds or
  \<^verbatim>\<open>null\<close>; every other field is kept as it was supplied. Schema-level validators
  (\<^verbatim>\<open>required\<close>, \<^verbatim>\<open>enum\<close>, \<^verbatim>\<open>min\<close>) are not modelled, and every store operation
  succeeds unless a value cannot be cast.
\<close>

record truck =
  t_truckId :: int
  t_availabilityStatus :: jsval

record driver =
  d_driverId :: int
  d_name :: jsval
  d_licenseNumber :: jsval
  d_phoneNumber :: jsval
  d_address :: jsval
  d_salary :: jsval
  d_experience :: jsval
  d_availabilityStatus :: jsval
  d_assignedTruck :: "int option"

record client =
  c_clientId :: int
  c_clientName :: jsval

record shipment =
  s_shipmentId :: int
  s_shipmentName :: jsval
  s_clientId :: "int option"
  s_pickupLocation :: jsval
  s_deliveryLocation :: jsval
  s_cargoType :: jsval
  s_cargoWeight :: jsval
  s_specialInstructions :: jsval
  s_departureDate :: "int option"
  s_arrivalDate :: "int option"
  s_status :: jsval
  s_truckId :: "int option"
  s_driverId :: "int option"

text \<open>
  A collection is the list of its documents in insertion order; \<^verbatim>\<open>findOne\<close> and
  \<^verbatim>\<open>updateOne\<close> take the first document that matches. The counters are the documents
  of the \<^verbatim>\<open>Counter\<close> collection, each a pair of its \<^verbatim>\<open>_id\<close> and its \<^verbatim>\<open>sequence\<close>.
\<close>

record store =
  trucks :: "truck list"
  drivers :: "driver list"
  clients :: "client list"
  shipments :: "shipment list"
  counters :: "(string \<times> int) list"

datatype exn = CastError | TypeError | ValidationError

text \<open>The store operations a request issues, in the order it issues them.\<close>

datatype dbop =
    Op_Truck_findOne jsval
  | Op_Driver_findOne jsval
  | Op_Client_findOne jsval
  | Op_Shipment_save
  | Op_Truck_updateOne jsval
  | Op_Driver_updateOne jsval

fun updateFirst :: "('a \<Rightarrow> bool) \<Rightarrow> ('a \<Rightarrow> 'a) \<Rightarrow> 'a list \<Rightarrow> 'a list" where
  "updateFirst P f [] = []"
| "updateFirst P f (x # xs) = (if P x then f x # xs else x # updateFirst P f xs)"

fun removeFirst :: "('a \<Rightarrow> bool) \<Rightarrow> 'a list \<Rightarrow> 'a list" where
  "removeFirst P [] = []"
| "removeFirst P (x # xs) = (if P x then xs else x # removeFirst P xs)"

text \<open>
  \<^verbatim>\<open>Model.findOne({ id: v })\<close>: the filter value is cast to the id's type. A filter for
  \<^verbatim>\<open>null\<close> matches no document, since every document has its numeric id.
\<close>

definition findOneBy :: "lib \<Rightarrow> ('a \<Rightarrow> int) \<Rightarrow> 'a list \<Rightarrow> jsval \<Rightarrow> exn + 'a option" where
  "findOneBy L key docs v =
     (case castNumber L v of
        CastFail \<Rightarrow> Inl CastError
      | CastNull \<Rightarrow> Inr None
      | CastNum n \<Rightarrow> Inr (find (\<lambda>d. key d = n) docs))"

definition Truck_findOne :: "lib \<Rightarrow> store \<Rightarrow> jsval \<Rightarrow> exn + truck option" where
  "Truck_findOne L S v = findOneBy L t_truckId (trucks S) v"

definition Driver_findOne :: "lib \<Rightarrow> store \<Rightarrow> jsval \<Rightarrow> exn + driver option" where
  "Driver_findOne L S v = findOneBy L d_driverId (drivers S) v"

definition Client_findOne :: "lib \<Rightarrow> store \<Rightarrow> jsval \<Rightarrow> exn + client option" where
  "Client_findOne L S v = findOneBy L c_clientId (clients S) v"

definition Shipment_findOne :: "lib \<Rightarrow> store \<Rightarrow> jsval \<Rightarrow> exn + shipment option" where
  "Shipment_findOne L S v = findOneBy L s_shipmentId (shipments S) v"

text \<open>A stored reference, read back as the value of a filter.\<close>

fun ref :: "int option \<Rightarrow> jsval" where
  "ref None = JUndefined"
| "ref (Some n) = JNum n"

text \<open>
  \<^verbatim>\<open>Truck.updateOne({ truckId }, { $set: { availabilityStatus: "Not Available" } })\<close>
\<close>

definition Truck_updateOne :: "lib \<Rightarrow> store \<Rightarrow> jsval \<Rightarrow> exn + store" where
  "Truck_updateOne L S truckId =
     (case castNumber L truckId of
        CastFail \<Rightarrow> Inl CastError
      | CastNull \<Rightarrow> Inr S
      | CastNum n \<Rightarrow>
          Inr (S\<lparr>trucks := updateFirst (\<lambda>t. t_truckId t = n)
                 (\<lambda>t. t\<lparr>t_availabilityStatus := JStr ''Not Available''\<rparr>) (trucks S)\<rparr>))"

text \<open>
  \<^verbatim>\<open>Driver.updateOne({ driverId },
       { $set: { availabilityStatus: "Not Available", assignedTruck: truckId } })\<close>.
  The update is cast before the query runs. With \<^verbatim>\<open>truckId\<close> undefined the key
  \<^verbatim>\<open>assignedTruck\<close> is dropped from the update or set to \<^verbatim>\<open>null\<close>, as the library does.
\<close>

definition setAssignedTruck :: "lib \<Rightarrow> jsval \<Rightarrow> exn + (driver \<Rightarrow> driver)" where
  "setAssignedTruck L truckId =
     (if truckId = JUndefined then
        (if omitUndefined L then Inr (\<lambda>d. d) else Inr (\<lambda>d. d\<lparr>d_assignedTruck := None\<rparr>))
      else case castNumber L truckId of
        CastFail \<Rightarrow> Inl CastError
      | CastNull \<Rightarrow> Inr (\<lambda>d. d\<lparr>d_assignedTruck := None\<rparr>)
      | CastNum n \<Rightarrow> Inr (\<lambda>d. d\<lparr>d_assignedTruck := Some n\<rparr>))"

definition Driver_updateOne :: "lib \<Rightarrow> store \<Rightarrow> jsval \<Rightarrow> jsval \<Rightarrow> exn + store" where
  "Driver_updateOne L S driverId truckId =
     (case setAssignedTruck L truckId of
        Inl e \<Rightarrow> Inl e
      | Inr assign \<Rightarrow>
         (case castNumber L driverId of
            CastFail \<Rightarrow> Inl CastError
          | CastNull \<Rightarrow> Inr S
          | CastNum n \<Rightarrow>
              Inr (S\<lparr>drivers := updateFirst (\<lambda>d. d_driverId d = n)
                     (\<lambda>d. assign (d\<lparr>d_availabilityStatus := JStr ''Not Available''\<rparr>))
                     (drivers S)\<rparr>)))"

section \<open>Sequence Generator\<close>

text \<open>
  \<^verbatim>\<open>Counter.findOneAndUpdate({ _id: key }, { $inc: { sequence: 1 } },
       { new: true, upsert: true })\<close>
  increments the counter of the key, inserting it when there is none (\<^verbatim>\<open>$inc\<close> on a
  missing field sets it to the increment), and returns the document after the update.
\<close>

definition Counter_findOneAndUpdate :: "string \<Rightarrow> (string \<times> int) list \<Rightarrow> int \<times> (string \<times> int) list" where
  "Counter_findOneAndUpdate key C =
     (let sequence = (case map_of C key of None \<Rightarrow> 1 | Some n \<Rightarrow> n + 1)
      in (sequence, AList.update key sequence C))"

section \<open>Requests and responses\<close>

text \<open>The body of a shipment request: the fields of the Shipment data model.\<close>

record shipment_body =
  b_shipmentName :: jsval
  b_clientId :: jsval
  b_pickupLocation :: jsval
  b_deliveryLocation :: jsval
  b_cargoType :: jsval
  b_cargoWeight :: jsval
  b_specialInstructions :: jsval
  b_departureDate :: jsval
  b_arrivalDate :: jsval
  b_status :: jsval
  b_truckId :: jsval
  b_driverId :: jsval

text \<open>A shipment of \<^verbatim>\<open>getAllShipments\<close>, merged with what it refers to.\<close>

record populated =
  p_shipment :: shipment
  p_truck :: "truck option"
  p_driver :: "driver option"
  p_clientName :: jsval

text \<open>The JSON bodies the controllers send, and the response with its HTTP status.\<close>

datatype payload =
    Errors "verror list"
  | Failure string
  | Error string
  | Created string shipment
  | Shipments "populated list"
  | ShipmentWith shipment "truck option" "driver option"
  | Updated string shipment "truck option" "driver option"
  | Deleted string shipment
  | DriverWith driver "truck option"
  | DriverUpdated driver "truck option" string
  | Message string

datatype response = Response nat payload

fun status :: "response \<Rightarrow> nat" where
  "status (Response code p) = code"

fun json :: "response \<Rightarrow> payload" where
  "json (Response code p) = p"

definition internalError :: response where
  "internalError = Response 500 (Error ''An internal server error occurred.'')"

section \<open>createShipment\<close>

text \<open>The ten validation chains of \<^verbatim>\<open>createShipment\<close>, in the order they run.\<close>

definition validateCreateShipment :: "lib \<Rightarrow> shipment_body \<Rightarrow> verror list" where
  "validateCreateShipment L b =
     runChain ''clientId'' False
       [(isNumeric L, ''Client ID must be an integer.'')] (b_clientId b)
   @ runChain ''shipmentName'' False
       [(isString L, ''Shipment Name is required.'')] (b_shipmentName b)
   @ runChain ''pickupLocation'' False
       [(isString L, Invalid_value), (notEmpty L, ''Pickup location is required.'')]
       (b_pickupLocation b)
   @ runChain ''deliveryLocation'' False
       [(isString L, Invalid_value), (notEmpty L, ''Delivery location is required.'')]
       (b_deliveryLocation b)
   @ runChain ''cargoType'' False
       [(isString L, Invalid_value), (notEmpty L, ''Cargo type is required.'')]
       (b_cargoType b)
   @ runChain ''cargoWeight'' False
       [(isFloat_gt0 L, ''Cargo weight must be a positive number.'')] (b_cargoWeight b)
   @ runChain ''departureDate'' False
       [(isISO8601 L, ''Departure date must be a valid date.'')] (b_departureDate b)
   @ runChain ''arrivalDate'' False
       [(isISO8601 L, ''Arrival date must be a valid date.'')] (b_arrivalDate b)
   @ runChain ''truckId'' True
       [(isNumeric L, ''Truck ID must be a valid MongoDB ObjectId.'')] (b_truckId b)
   @ runChain ''driverId'' True
       [(isNumeric L, ''Driver ID must be a valid MongoDB ObjectId.'')] (b_driverId b)"

text \<open>The outcome of one business-rule check: go on, respond 400 with a message, or throw.\<close>

datatype check = Pass | Reject string | Raise exn

text \<open>\<^verbatim>\<open>// Check if truck exists and is available\<close>\<close>

definition checkTruck :: "lib \<Rightarrow> store \<Rightarrow> jsval \<Rightarrow> check \<times> dbop list" where
  "checkTruck L S truckId =
     (if truthy truckId then
        (case Truck_findOne L S truckId of
           Inl e \<Rightarrow> (Raise e, [Op_Truck_findOne truckId])
         | Inr None \<Rightarrow>
             (Reject ''Invalid Truck ID. Truck does not exist.'', [Op_Truck_findOne truckId])
         | Inr (Some truck) \<Rightarrow>
             if t_availabilityStatus truck \<noteq> JStr ''Available''
             then (Reject ''Truck is not available.'', [Op_Truck_findOne truckId])
             else (Pass, [Op_Truck_findOne truckId]))
      else (Pass, []))"

text \<open>\<^verbatim>\<open>// Check if driver exists and is available\<close>\<close>

definition checkDriver :: "lib \<Rightarrow> store \<Rightarrow> jsval \<Rightarrow> check \<times> dbop list" where
  "checkDriver L S driverId =
     (if truthy driverId then
        (case Driver_findOne L S driverId of
           Inl e \<Rightarrow> (Raise e, [Op_Driver_findOne driverId])
         | Inr None \<Rightarrow>
             (Reject ''Invalid Driver ID. Driver does not exist.'', [Op_Driver_findOne driverId])
         | Inr (Some driver) \<Rightarrow>
             if d_availabilityStatus driver \<noteq> JStr ''Available''
             then (Reject ''Driver is not available.'', [Op_Driver_findOne driverId])
             else (Pass, [Op_Driver_findOne driverId]))
      else (Pass, []))"

text \<open>\<^verbatim>\<open>// Check if client exists\<close>\<close>

definition checkClient :: "lib \<Rightarrow> store \<Rightarrow> jsval \<Rightarrow> check \<times> dbop list" where
  "checkClient L S clientId =
     (if truthy clientId then
        (case Client_findOne L S clientId of
           Inl e \<Rightarrow> (Raise e, [Op_Client_findOne clientId])
         | Inr None \<Rightarrow>
             (Reject ''Invalid Client ID. Client does not exist.'', [Op_Client_findOne clientId])
         | Inr (Some client) \<Rightarrow> (Pass, [Op_Client_findOne clientId]))
      else (Pass, []))"

text \<open>
  \<^verbatim>\<open>new Shipment({ shipmentId: 0, shipmentName, clientId, ..., status, truckId, driverId })\<close>:
  the three references are cast to numbers; a value that cannot be cast makes
  \<^verbatim>\<open>save()\<close> fail. The dates are the request's after \<^verbatim>\<open>toDate()\<close>.
\<close>

fun castOk :: "cast \<Rightarrow> bool" where
  "castOk CastFail = False"
| "castOk CastNull = True"
| "castOk (CastNum n) = True"

fun idOf :: "cast \<Rightarrow> int option" where
  "idOf CastFail = None"
| "idOf CastNull = None"
| "idOf (CastNum n) = Some n"

definition Shipment_new :: "lib \<Rightarrow> shipment_body \<Rightarrow> jsval \<Rightarrow> exn + shipment" where
  "Shipment_new L b status' =
     (if castOk (castNumber L (b_clientId b)) \<and> castOk (castNumber L (b_truckId b))
         \<and> castOk (castNumber L (b_driverId b))
      then Inr \<lparr>s_shipmentId = 0,
                s_shipmentName = b_shipmentName b,
                s_clientId = idOf (castNumber L (b_clientId b)),
                s_pickupLocation = b_pickupLocation b,
                s_deliveryLocation = b_deliveryLocation b,
                s_cargoType = b_cargoType b,
                s_cargoWeight = b_cargoWeight b,
                s_specialInstructions = b_specialInstructions b,
                s_departureDate = toDate L (b_departureDate b),
                s_arrivalDate = toDate L (b_arrivalDate b),
                s_status = status',
                s_truckId = idOf (castNumber L (b_truckId b)),
                s_driverId = idOf (castNumber L (b_driverId b))\<rparr>
      else Inl ValidationError)"

text \<open>
  Modelled from the spec: the Shipment model and its pre-save hook are missing from the
  sources. The record is created with the placeholder id 0, a pre-save hook fills the
  numeric id from the Sequence Generator, and the record is persisted.
\<close>

definition Shipment_save :: "store \<Rightarrow> shipment \<Rightarrow> shipment \<times> store" where
  "Shipment_save S doc =
     (let (sequence, C) = Counter_findOneAndUpdate ''shipmentId'' (counters S);
          shipment = doc\<lparr>s_shipmentId := sequence\<rparr>
      in (shipment, S\<lparr>shipments := shipments S @ [shipment], counters := C\<rparr>))"

text \<open>
  The handler. The result is the response, the store after the request and the store
  operations issued. Everything from the first check on runs inside \<^verbatim>\<open>try\<close>, whose
  \<^verbatim>\<open>catch\<close> answers 500; what was written before a throw stays written.
\<close>

definition createShipment :: "lib \<Rightarrow> shipment_body \<Rightarrow> store \<Rightarrow> response \<times> store \<times> dbop list" where
  "createShipment L b S =
     (let errors = validateCreateShipment L b in
      if errors \<noteq> [] then (Response 400 (Errors errors), S, [])
      else
        let status' = (if b_status b = JUndefined then JStr ''pending'' else b_status b);
            truckId = b_truckId b;
            driverId = b_driverId b;
            clientId = b_clientId b
        in
        case checkTruck L S truckId of
          (Reject m, t1) \<Rightarrow> (Response 400 (Failure m), S, t1)
        | (Raise e, t1) \<Rightarrow> (internalError, S, t1)
        | (Pass, t1) \<Rightarrow>
        (case checkDriver L S driverId of
          (Reject m, t2) \<Rightarrow> (Response 400 (Failure m), S, t1 @ t2)
        | (Raise e, t2) \<Rightarrow> (internalError, S, t1 @ t2)
        | (Pass, t2) \<Rightarrow>
        (case checkClient L S clientId of
          (Reject m, t3) \<Rightarrow> (Response 400 (Failure m), S, t1 @ t2 @ t3)
        | (Raise e, t3) \<Rightarrow> (internalError, S, t1 @ t2 @ t3)
        | (Pass, t3) \<Rightarrow>
        (case Shipment_new L b status' of
          Inl e \<Rightarrow> (internalError, S, t1 @ t2 @ t3 @ [Op_Shipment_save])
        | Inr doc \<Rightarrow>
        (let (shipment, S1) = Shipment_save S doc;
             t4 = t1 @ t2 @ t3 @ [Op_Shipment_save]
         in
         case (if truthy truckId then (Truck_updateOne L S1 truckId, [Op_Truck_updateOne truckId])
               else (Inr S1, [])) of
           (Inl e, t5) \<Rightarrow> (internalError, S1, t4 @ t5)
         | (Inr S2, t5) \<Rightarrow>
         (case (if truthy driverId
                then (Driver_updateOne L S2 driverId truckId, [Op_Driver_updateOne driverId])
                else (Inr S2, [])) of
           (Inl e, t6) \<Rightarrow> (internalError, S2, t4 @ t5 @ t6)
         | (Inr S3, t6) \<Rightarrow>
             (Response 201 (Created ''Shipment created successfully.'' shipment), S3,
              t4 @ t5 @ t6)))))))"

section \<open>Reading and changing shipments\<close>

text \<open>
  Reading a property of \<^verbatim>\<open>null\<close> throws a TypeError: \<^verbatim>\<open>client.clientName\<close>,
  \<^verbatim>\<open>updatedShipment.truckId\<close>, \<^verbatim>\<open>driver.assignedTruck\<close>.
\<close>

fun deref :: "'a option \<Rightarrow> exn + 'a" where
  "deref None = Inl TypeError"
| "deref (Some x) = Inr x"

text \<open>
  The callback of \<^verbatim>\<open>shipments.map\<close> in \<^verbatim>\<open>getAllShipments\<close>: three lookups, then
  \<^verbatim>\<open>client.clientName\<close>.
\<close>

definition populate :: "lib \<Rightarrow> store \<Rightarrow> shipment \<Rightarrow> exn + populated" where
  "populate L S shipment =
     (case Truck_findOne L S (ref (s_truckId shipment)) of
        Inl e \<Rightarrow> Inl e
      | Inr truck \<Rightarrow>
     (case Driver_findOne L S (ref (s_driverId shipment)) of
        Inl e \<Rightarrow> Inl e
      | Inr driver \<Rightarrow>
     (case Client_findOne L S (ref (s_clientId shipment)) of
        Inl e \<Rightarrow> Inl e
      | Inr client \<Rightarrow>
     (case deref client of
        Inl e \<Rightarrow> Inl e
      | Inr c \<Rightarrow>
          Inr \<lparr>p_shipment = shipment, p_truck = truck, p_driver = driver,
               p_clientName = c_clientName c\<rparr>))))"

text \<open>\<^verbatim>\<open>Promise.all\<close>: rejected when one of the promises is, else the list of the results.\<close>

fun Promise_all :: "(exn + 'a) list \<Rightarrow> exn + 'a list" where
  "Promise_all [] = Inr []"
| "Promise_all (Inl e # ps) = Inl e"
| "Promise_all (Inr x # ps) = (case Promise_all ps of Inl e \<Rightarrow> Inl e | Inr xs \<Rightarrow> Inr (x # xs))"

definition getAllShipments :: "lib \<Rightarrow> store \<Rightarrow> response" where
  "getAllShipments L S =
     (case Promise_all (map (populate L S) (shipments S)) of
        Inl e \<Rightarrow> internalError
      | Inr populatedShipments \<Rightarrow> Response 200 (Shipments populatedShipments))"

definition getShipmentById :: "lib \<Rightarrow> jsval \<Rightarrow> store \<Rightarrow> response" where
  "getShipmentById L shipmentId S =
     (case Shipment_findOne L S shipmentId of
        Inl e \<Rightarrow> internalError
      | Inr None \<Rightarrow> Response 404 (Error ''Shipment not found.'')
      | Inr (Some shipment) \<Rightarrow>
     (case Truck_findOne L S (ref (s_truckId shipment)) of
        Inl e \<Rightarrow> internalError
      | Inr truck \<Rightarrow>
     (case Driver_findOne L S (ref (s_driverId shipment)) of
        Inl e \<Rightarrow> internalError
      | Inr driver \<Rightarrow> Response 200 (ShipmentWith shipment truck driver))))"

text \<open>The eight validation chains of \<^verbatim>\<open>updateShipment\<close>; every field is optional.\<close>

definition validateUpdateShipment :: "lib \<Rightarrow> shipment_body \<Rightarrow> verror list" where
  "validateUpdateShipment L b =
     runChain ''shipmentName'' True
       [(isString L, Invalid_value), (notEmpty L, ''Shipment Name must be a non-empty string.'')]
       (b_shipmentName b)
   @ runChain ''pickupLocation'' True
       [(isString L, Invalid_value), (notEmpty L, ''Pickup location must be a non-empty string.'')]
       (b_pickupLocation b)
   @ runChain ''deliveryLocation'' True
       [(isString L, Invalid_value), (notEmpty L, ''Delivery location must be a non-empty string.'')]
       (b_deliveryLocation b)
   @ runChain ''cargoType'' True
       [(isString L, Invalid_value), (notEmpty L, ''Cargo type must be a non-empty string.'')]
       (b_cargoType b)
   @ runChain ''cargoWeight'' True
       [(isFloat_gt0 L, ''Cargo weight must be a positive number.'')] (b_cargoWeight b)
   @ runChain ''departureDate'' True
       [(isISO8601 L, ''Departure date must be a valid date.'')] (b_departureDate b)
   @ runChain ''arrivalDate'' True
       [(isISO8601 L, ''Arrival date must be a valid date.'')] (b_arrivalDate b)
   @ runChain ''status'' True
       [(isIn L [''pending'', ''delivered'', ''cancelled''],
         ''Status must be 'pending', 'delivered', or 'cancelled'.'')] (b_status b)"

text \<open>
  The request body as an update: each key that is present replaces the field of the
  document, a reference after its cast to a number, a date after \<^verbatim>\<open>toDate()\<close>.
\<close>

definition shipmentUpdate :: "lib \<Rightarrow> shipment_body \<Rightarrow> exn + (shipment \<Rightarrow> shipment)" where
  "shipmentUpdate L b =
     (if castOk (castNumber L (b_clientId b)) \<and> castOk (castNumber L (b_truckId b))
         \<and> castOk (castNumber L (b_driverId b))
      then Inr (\<lambda>d. d\<lparr>
        s_shipmentName := (if b_shipmentName b = JUndefined then s_shipmentName d else b_shipmentName b),
        s_clientId := (if b_clientId b = JUndefined then s_clientId d else idOf (castNumber L (b_clientId b))),
        s_pickupLocation := (if b_pickupLocation b = JUndefined then s_pickupLocation d else b_pickupLocation b),
        s_deliveryLocation := (if b_deliveryLocation b = JUndefined then s_deliveryLocation d else b_deliveryLocation b),
        s_cargoType := (if b_cargoType b = JUndefined then s_cargoType d else b_cargoType b),
        s_cargoWeight := (if b_cargoWeight b = JUndefined then s_cargoWeight d else b_cargoWeight b),
        s_specialInstructions := (if b_specialInstructions b = JUndefined then s_specialInstructions d else b_specialInstructions b),
        s_departureDate := (if b_departureDate b = JUndefined then s_departureDate d else toDate L (b_departureDate b)),
        s_arrivalDate := (if b_arrivalDate b = JUndefined then s_arrivalDate d else toDate L (b_arrivalDate b)),
        s_status := (if b_status b = JUndefined then s_status d else b_status b),
        s_truckId := (if b_truckId b = JUndefined then s_truckId d else idOf (castNumber L (b_truckId b))),
        s_driverId := (if b_driverId b = JUndefined then s_driverId d else idOf (castNumber L (b_driverId b)))\<rparr>)
      else Inl CastError)"

text \<open>
  \<^verbatim>\<open>Shipment.findOneAndUpdate({ shipmentId: id }, req.body, { new: true, ... })\<close>: the
  document after the update, or \<^verbatim>\<open>null\<close> when none matches.
\<close>

definition Shipment_findOneAndUpdate ::
    "lib \<Rightarrow> store \<Rightarrow> jsval \<Rightarrow> shipment_body \<Rightarrow> exn + (shipment option \<times> store)" where
  "Shipment_findOneAndUpdate L S id' b =
     (case shipmentUpdate L b of
        Inl e \<Rightarrow> Inl e
      | Inr upd \<Rightarrow>
     (case Shipment_findOne L S id' of
        Inl e \<Rightarrow> Inl e
      | Inr None \<Rightarrow> Inr (None, S)
      | Inr (Some d) \<Rightarrow>
          Inr (Some (upd d),
               S\<lparr>shipments := updateFirst (\<lambda>x. s_shipmentId x = s_shipmentId d) upd (shipments S)\<rparr>)))"

definition updateShipment :: "lib \<Rightarrow> jsval \<Rightarrow> shipment_body \<Rightarrow> store \<Rightarrow> response \<times> store" where
  "updateShipment L id' b S =
     (let errors = validateUpdateShipment L b in
      if errors \<noteq> [] then (Response 400 (Errors errors), S)
      else
        case Shipment_findOneAndUpdate L S id' b of
          Inl e \<Rightarrow> (internalError, S)
        | Inr (updatedShipment, S1) \<Rightarrow>
        (case deref updatedShipment of
          Inl e \<Rightarrow> (internalError, S1)
        | Inr u \<Rightarrow>
        (case Truck_findOne L S1 (ref (s_truckId u)) of
          Inl e \<Rightarrow> (internalError, S1)
        | Inr truck \<Rightarrow>
        (case Driver_findOne L S1 (ref (s_driverId u)) of
          Inl e \<Rightarrow> (internalError, S1)
        | Inr driver \<Rightarrow>
            if updatedShipment = None
            then (Response 404 (Error ''Shipment not found.''), S1)
            else (Response 200 (Updated ''Shipment updated successfully.'' u truck driver), S1)))))"

definition Shipment_findOneAndDelete :: "lib \<Rightarrow> store \<Rightarrow> jsval \<Rightarrow> exn + (shipment option \<times> store)" where
  "Shipment_findOneAndDelete L S id' =
     (case Shipment_findOne L S id' of
        Inl e \<Rightarrow> Inl e
      | Inr None \<Rightarrow> Inr (None, S)
      | Inr (Some d) \<Rightarrow>
          Inr (Some d, S\<lparr>shipments := removeFirst (\<lambda>x. s_shipmentId x = s_shipmentId d) (shipments S)\<rparr>))"

definition deleteShipment :: "lib \<Rightarrow> jsval \<Rightarrow> store \<Rightarrow> response \<times> store" where
  "deleteShipment L id' S =
     (case Shipment_findOneAndDelete L S id' of
        Inl e \<Rightarrow> (internalError, S)
      | Inr (None, S1) \<Rightarrow> (Response 404 (Error ''Shipment not found.''), S1)
      | Inr (Some deletedShipment, S1) \<Rightarrow>
          (Response 200 (Deleted ''Shipment deleted successfully.'' deletedShipment), S1))"

section \<open>Drivers\<close>

text \<open>The body of a driver update.\<close>

record driver_body =
  db_name :: jsval
  db_licenseNumber :: jsval
  db_phoneNumber :: jsval
  db_address :: jsval
  db_salary :: jsval
  db_experience :: jsval
  db_availabilityStatus :: jsval
  db_assignedTruck :: jsval

text \<open>\<^verbatim>\<open>param("driverId").isInt()\<close>, the check of the three handlers by id.\<close>

definition validateDriverId :: "lib \<Rightarrow> jsval \<Rightarrow> verror list" where
  "validateDriverId L driverId =
     runChain ''driverId'' False [(isInt L, ''Driver ID must be a valid integer.'')] driverId"

definition getDriverById :: "lib \<Rightarrow> jsval \<Rightarrow> store \<Rightarrow> response" where
  "getDriverById L driverId S =
     (let errors = validateDriverId L driverId in
      if errors \<noteq> [] then Response 400 (Errors errors)
      else
        case Driver_findOne L S driverId of
          Inl e \<Rightarrow> internalError
        | Inr driver \<Rightarrow>
        (case deref driver of
          Inl e \<Rightarrow> internalError
        | Inr d \<Rightarrow>
        (case Truck_findOne L S (ref (d_assignedTruck d)) of
          Inl e \<Rightarrow> internalError
        | Inr truck \<Rightarrow>
            if driver = None then Response 404 (Error ''Driver not found.'')
            else Response 200 (DriverWith d truck))))"

definition validateUpdateDriver :: "lib \<Rightarrow> jsval \<Rightarrow> driver_body \<Rightarrow> verror list" where
  "validateUpdateDriver L driverId b =
     validateDriverId L driverId
   @ runChain ''name'' True [(isString L, ''Driver name must be a string.'')] (db_name b)
   @ runChain ''licenseNumber'' True
       [(isString L, ''License number must be a string.'')] (db_licenseNumber b)
   @ runChain ''phoneNumber'' True
       [(isNumeric L, ''Phone number must be a number.'')] (db_phoneNumber b)
   @ runChain ''address'' True [(isString L, ''Address must be a string.'')] (db_address b)
   @ runChain ''salary'' True
       [(isFloat_gt0 L, ''Salary must be a positive number.'')] (db_salary b)
   @ runChain ''experience'' True
       [(isInt_min0 L, ''Experience must be a non-negative integer.'')] (db_experience b)
   @ runChain ''availabilityStatus'' True
       [(isIn L [''Available'', ''Not Available''],
         ''Availability status must be either Available or Not Available.'')]
       (db_availabilityStatus b)
   @ runChain ''assignedTruck'' True
       [(isMongoId L, ''Assigned truck must be a valid MongoDB ObjectId.'')]
       (db_assignedTruck b)"

definition driverUpdate :: "lib \<Rightarrow> driver_body \<Rightarrow> exn + (driver \<Rightarrow> driver)" where
  "driverUpdate L b =
     (if castOk (castNumber L (db_assignedTruck b))
      then Inr (\<lambda>d. d\<lparr>
        d_name := (if db_name b = JUndefined then d_name d else db_name b),
        d_licenseNumber := (if db_licenseNumber b = JUndefined then d_licenseNumber d else db_licenseNumber b),
        d_phoneNumber := (if db_phoneNumber b = JUndefined then d_phoneNumber d else db_phoneNumber b),
        d_address := (if db_address b = JUndefined then d_address d else db_address b),
        d_salary := (if db_salary b = JUndefined then d_salary d else db_salary b),
        d_experience := (if db_experience b = JUndefined then d_experience d else db_experience b),
        d_availabilityStatus := (if db_availabilityStatus b = JUndefined then d_availabilityStatus d else db_availabilityStatus b),
        d_assignedTruck := (if db_assignedTruck b = JUndefined then d_assignedTruck d else idOf (castNumber L (db_assignedTruck b)))\<rparr>)
      else Inl CastError)"

definition Driver_findOneAndUpdate ::
    "lib \<Rightarrow> store \<Rightarrow> jsval \<Rightarrow> driver_body \<Rightarrow> exn + (driver option \<times> store)" where
  "Driver_findOneAndUpdate L S driverId updateData =
     (case driverUpdate L updateData of
        Inl e \<Rightarrow> Inl e
      | Inr upd \<Rightarrow>
     (case Driver_findOne L S driverId of
        Inl e \<Rightarrow> Inl e
      | Inr None \<Rightarrow> Inr (None, S)
      | Inr (Some d) \<Rightarrow>
          Inr (Some (upd d),
               S\<lparr>drivers := updateFirst (\<lambda>x. d_driverId x = d_driverId d) upd (drivers S)\<rparr>)))"

definition updateDriverById :: "lib \<Rightarrow> jsval \<Rightarrow> driver_body \<Rightarrow> store \<Rightarrow> response \<times> store" where
  "updateDriverById L driverId updateData S =
     (let errors = validateUpdateDriver L driverId updateData in
      if errors \<noteq> [] then (Response 400 (Errors errors), S)
      else
        case Driver_findOneAndUpdate L S driverId updateData of
          Inl e \<Rightarrow> (internalError, S)
        | Inr (driver, S1) \<Rightarrow>
        (case deref driver of
          Inl e \<Rightarrow> (internalError, S1)
        | Inr d \<Rightarrow>
        (case Truck_findOne L S1 (ref (d_assignedTruck d)) of
          Inl e \<Rightarrow> (internalError, S1)
        | Inr assignedTruck \<Rightarrow>
            if driver = None then (Response 404 (Error ''Driver not found.''), S1)
            else (Response 200 (DriverUpdated d assignedTruck ''Driver updated successfully.''), S1))))"

definition Driver_findOneAndDelete :: "lib \<Rightarrow> store \<Rightarrow> jsval \<Rightarrow> exn + (driver option \<times> store)" where
  "Driver_findOneAndDelete L S driverId =
     (case Driver_findOne L S driverId of
        Inl e \<Rightarrow> Inl e
      | Inr None \<Rightarrow> Inr (None, S)
      | Inr (Some d) \<Rightarrow>
          Inr (Some d, S\<lparr>drivers := removeFirst (\<lambda>x. d_driverId x = d_driverId d) (drivers S)\<rparr>))"

definition deleteDriverById :: "lib \<Rightarrow> jsval \<Rightarrow> store \<Rightarrow> response \<times> store" where
  "deleteDriverById L driverId S =
     (let errors = validateDriverId L driverId in
      if errors \<noteq> [] then (Response 400 (Errors errors), S)
      else
        case Driver_findOneAndDelete L S driverId of
          Inl e \<Rightarrow> (internalError, S)
        | Inr (None, S1) \<Rightarrow> (Response 404 (Error ''Driver not found.''), S1)
        | Inr (Some result, S1) \<Rightarrow> (Response 200 (Message ''Driver deleted successfully.''), S1))"

section \<open>Bills\<close>

text \<open>
  A Bill document. The references to the client and the shipment are storage identifiers,
  kept as supplied like the other fields.
\<close>

record bill =
  bl_billId :: int
  bl_clientId :: jsval
  bl_shipmentId :: jsval
  bl_issueDate :: jsval
  bl_dueDate :: jsval
  bl_amount :: jsval
  bl_taxAmount :: jsval
  bl_totalAmount :: jsval
  bl_paymentStatus :: jsval
  bl_paymentMethod :: jsval
  bl_paymentDate :: jsval
  bl_GSTIN :: jsval
  bl_specialInstructions :: jsval
  bl_fuelCost :: jsval

text \<open>
  \<^verbatim>\<open>billSchema.pre("save", ...)\<close>: \<open>isNew\<close> is \<^verbatim>\<open>this.isNew\<close>, true on the first save
  of a document. The result is the document as it is saved and the counters. The update
  of the counter cannot fail in this store, so the \<^verbatim>\<open>catch\<close> of the hook, which hands
  a storage error to \<^verbatim>\<open>next\<close>, has no branch here.
\<close>

definition Bill_preSave :: "bool \<Rightarrow> bill \<Rightarrow> (string \<times> int) list \<Rightarrow> bill \<times> (string \<times> int) list" where
  "Bill_preSave isNew this C =
     (if isNew then
        (let (sequence, C') = Counter_findOneAndUpdate ''billId'' C
         in (this\<lparr>bl_billId := sequence\<rparr>, C'))
      else (this, C))"

text \<open>\<open>n\<close> calls of the Sequence Generator for one key, one after the other.\<close>

fun generate :: "nat \<Rightarrow> string \<Rightarrow> (string \<times> int) list \<Rightarrow> int list \<times> (string \<times> int) list" where
  "generate 0 key C = ([], C)"
| "generate (Suc n) key C =
     (let (v, C1) = Counter_findOneAndUpdate key C;
          (vs, C2) = generate n key C1
      in (v # vs, C2))"

section \<open>An instance of the libraries\<close>

text \<open>
  To run the handlers on concrete requests the library parameter is instantiated.
  express-validator turns the value into a string (a number into its decimal numeral,
  \<^verbatim>\<open>null\<close> and \<^verbatim>\<open>undefined\<close> into the empty string) and applies the validator of
  validator.js. The instance decides numbers and the string forms below as the libraries
  do; it accepts fewer strings than they do where the text of a validator says so.
\<close>

definition digit :: "char \<Rightarrow> bool" where
  "digit c = (c \<in> set ''0123456789'')"

definition unsigned :: "string \<Rightarrow> string" where
  "unsigned s =
     (case s of [] \<Rightarrow> [] | c # cs \<Rightarrow> if c = CHR ''+'' \<or> c = CHR ''-'' then cs else s)"

text \<open>\<^verbatim>\<open>isNumeric\<close>: the pattern \<^verbatim>\<open>^[+-]?([0-9]*[.])?[0-9]+$\<close>.\<close>

definition numericString :: "string \<Rightarrow> bool" where
  "numericString s =
     (let r = dropWhile digit (unsigned s)
      in if r = [] then unsigned s \<noteq> []
         else hd r = CHR ''.'' \<and> tl r \<noteq> [] \<and> list_all digit (tl r))"

text \<open>\<^verbatim>\<open>isInt\<close>: the pattern \<^verbatim>\<open>^[-+]?(0|[1-9][0-9]*)$\<close>.\<close>

definition intString :: "string \<Rightarrow> bool" where
  "intString s =
     (let u = unsigned s
      in u = ''0'' \<or> (u \<noteq> [] \<and> hd u \<noteq> CHR ''0'' \<and> list_all digit u))"

definition digitsValue :: "string \<Rightarrow> int" where
  "digitsValue s = foldl (\<lambda>n c. 10 * n + (int (of_char c) - 48)) 0 s"

text \<open>
  \<^verbatim>\<open>Number(s)\<close> for a numeral with an optional sign. (JavaScript reads more strings as
  numbers: fractions, exponents, hexadecimal numerals, surrounding blanks.)
\<close>

definition parseNumber_std :: "string \<Rightarrow> int option" where
  "parseNumber_std s =
     (if unsigned s \<noteq> [] \<and> list_all digit (unsigned s)
      then Some (if hd s = CHR ''-'' then - digitsValue (unsigned s) else digitsValue (unsigned s))
      else None)"

text \<open>A number prints as a plain numeral when its magnitude is below \<open>10\<^sup>2\<^sup>1\<close>.\<close>

definition isNumeric_std :: "jsval \<Rightarrow> bool" where
  "isNumeric_std v =
     (case v of JNum n \<Rightarrow> \<bar>n\<bar> < 10 ^ 21 | JStr s \<Rightarrow> numericString s | _ \<Rightarrow> False)"

definition isString_std :: "jsval \<Rightarrow> bool" where
  "isString_std v = (case v of JStr s \<Rightarrow> True | _ \<Rightarrow> False)"

definition notEmpty_std :: "jsval \<Rightarrow> bool" where
  "notEmpty_std v =
     (case v of JUndefined \<Rightarrow> False | JNull \<Rightarrow> False | JStr s \<Rightarrow> s \<noteq> [] | _ \<Rightarrow> True)"

text \<open>\<^verbatim>\<open>isFloat({ gt: 0 })\<close>; of the strings, only the numerals without sign or fraction.\<close>

definition isFloat_gt0_std :: "jsval \<Rightarrow> bool" where
  "isFloat_gt0_std v =
     (case v of
        JNum n \<Rightarrow> 0 < n
      | JStr s \<Rightarrow> s \<noteq> [] \<and> list_all digit s \<and> 0 < digitsValue s
      | _ \<Rightarrow> False)"

text \<open>
  \<^verbatim>\<open>isISO8601\<close>; only the calendar dates \<^verbatim>\<open>YYYY-MM-DD\<close> with a month from 01 to 12
  and a day from 01 to 28.
\<close>

definition isoDate :: "string \<Rightarrow> bool" where
  "isoDate s =
     (length s = 10 \<and> s ! 4 = CHR ''-'' \<and> s ! 7 = CHR ''-''
      \<and> list_all digit (take 4 s) \<and> list_all digit (take 2 (drop 5 s))
      \<and> list_all digit (drop 8 s)
      \<and> 1 \<le> digitsValue (take 2 (drop 5 s)) \<and> digitsValue (take 2 (drop 5 s)) \<le> 12
      \<and> 1 \<le> digitsValue (drop 8 s) \<and> digitsValue (drop 8 s) \<le> 28)"

definition isISO8601_std :: "jsval \<Rightarrow> bool" where
  "isISO8601_std v = (case v of JStr s \<Rightarrow> isoDate s | _ \<Rightarrow> False)"

text \<open>The days from 1970-01-01 to a date of the Gregorian calendar.\<close>

definition daysFromCivil :: "int \<Rightarrow> int \<Rightarrow> int \<Rightarrow> int" where
  "daysFromCivil y m d =
     (let y' = (if m \<le> 2 then y - 1 else y);
          era = y' div 400;
          yoe = y' - era * 400;
          doy = (153 * (if m > 2 then m - 3 else m + 9) + 2) div 5 + d - 1;
          doe = yoe * 365 + yoe div 4 - yoe div 100 + doy
      in era * 146097 + doe - 719468)"

text \<open>\<^verbatim>\<open>toDate()\<close> on the dates that \<open>isoDate\<close> accepts: midnight UTC of the day.\<close>

definition toDate_std :: "jsval \<Rightarrow> int option" where
  "toDate_std v =
     (case v of
        JStr s \<Rightarrow>
          if isoDate s
          then Some (86400000 * daysFromCivil (digitsValue (take 4 s))
                       (digitsValue (take 2 (drop 5 s))) (digitsValue (drop 8 s)))
          else None
      | _ \<Rightarrow> None)"

definition isInt_std :: "jsval \<Rightarrow> bool" where
  "isInt_std v =
     (case v of JNum n \<Rightarrow> \<bar>n\<bar> < 10 ^ 21 | JStr s \<Rightarrow> intString s | _ \<Rightarrow> False)"

definition isInt_min0_std :: "jsval \<Rightarrow> bool" where
  "isInt_min0_std v =
     (case v of
        JNum n \<Rightarrow> 0 \<le> n \<and> n < 10 ^ 21
      | JStr s \<Rightarrow> intString s \<and> (hd s \<noteq> CHR ''-'' \<or> s = ''-0'')
      | _ \<Rightarrow> False)"

text \<open>\<^verbatim>\<open>isIn(values)\<close> on a string or a boolean; a number is taken to be in no list.\<close>

definition isIn_std :: "string list \<Rightarrow> jsval \<Rightarrow> bool" where
  "isIn_std values v =
     (case v of
        JStr s \<Rightarrow> s \<in> set values
      | JBool b \<Rightarrow> (if b then ''true'' else ''false'') \<in> set values
      | JNum n \<Rightarrow> False
      | _ \<Rightarrow> [] \<in> set values)"

text \<open>\<^verbatim>\<open>isMongoId\<close>: 24 hexadecimal digits.\<close>

definition isMongoId_std :: "jsval \<Rightarrow> bool" where
  "isMongoId_std v =
     (case v of
        JStr s \<Rightarrow> length s = 24 \<and> list_all (\<lambda>c. c \<in> set ''0123456789abcdefABCDEF'') s
      | _ \<Rightarrow> False)"

definition stdLib :: lib where
  "stdLib = \<lparr>isNumeric = isNumeric_std, isString = isString_std, notEmpty = notEmpty_std,
     isFloat_gt0 = isFloat_gt0_std, isISO8601 = isISO8601_std, isInt = isInt_std,
     isInt_min0 = isInt_min0_std, isIn = isIn_std, isMongoId = isMongoId_std,
     toDate = toDate_std, parseNumber = parseNumber_std, omitUndefined = True\<rparr>"

section \<open>Sample data\<close>

definition emptyStore :: store where
  "emptyStore = \<lparr>trucks = [], drivers = [], clients = [], shipments = [], counters = []\<rparr>"

definition truck1 :: truck where
  "truck1 = \<lparr>t_truckId = 1, t_availabilityStatus = JStr ''Available''\<rparr>"

definition driver1 :: driver where
  "driver1 = \<lparr>d_driverId = 1, d_name = JStr ''Asha'', d_licenseNumber = JStr ''MH12-2011'',
     d_phoneNumber = JNum 9820012345, d_address = JStr ''Pune'', d_salary = JNum 30000,
     d_experience = JStr ''5 years'', d_availabilityStatus = JStr ''Available'',
     d_assignedTruck = None\<rparr>"

definition truck2 :: truck where
  "truck2 = \<lparr>t_truckId = 2, t_availabilityStatus = JStr ''Not Available''\<rparr>"

definition driver2 :: driver where
  "driver2 = driver1\<lparr>d_driverId := 2, d_name := JStr ''Ravi'', d_licenseNumber := JStr ''MH14-2015'',
     d_availabilityStatus := JStr ''Not Available'', d_assignedTruck := Some 2\<rparr>"

definition client1 :: client where
  "client1 = \<lparr>c_clientId = 1, c_clientName = JStr ''Acme''\<rparr>"

definition store1 :: store where
  "store1 = \<lparr>trucks = [truck1, truck2], drivers = [driver1, driver2], clients = [client1],
     shipments = [], counters = []\<rparr>"

text \<open>A request that passes the field validation, with no truck and no driver.\<close>

definition request1 :: shipment_body where
  "request1 = \<lparr>b_shipmentName = JStr ''Steel coils'', b_clientId = JNum 1,
     b_pickupLocation = JStr ''Pune'', b_deliveryLocation = JStr ''Mumbai'',
     b_cargoType = JStr ''Steel'', b_cargoWeight = JNum 12,
     b_specialInstructions = JUndefined, b_departureDate = JStr ''2024-01-01'',
     b_arrivalDate = JStr ''2024-01-05'', b_status = JUndefined, b_truckId = JUndefined,
     b_driverId = JUndefined\<rparr>"

text \<open>The shipment that \<open>request1\<close> creates in a store that has no shipment yet.\<close>

definition shipment1 :: shipment where
  "shipment1 = \<lparr>s_shipmentId = 1, s_shipmentName = JStr ''Steel coils'', s_clientId = Some 1,
     s_pickupLocation = JStr ''Pune'', s_deliveryLocation = JStr ''Mumbai'',
     s_cargoType = JStr ''Steel'', s_cargoWeight = JNum 12,
     s_specialInstructions = JUndefined, s_departureDate = Some 1704067200000,
     s_arrivalDate = Some 1704412800000, s_status = JStr ''pending'', s_truckId = None,
     s_driverId = None\<rparr>"

definition emptyBody :: shipment_body where
  "emptyBody = \<lparr>b_shipmentName = JUndefined, b_clientId = JUndefined,
     b_pickupLocation = JUndefined, b_deliveryLocation = JUndefined,
     b_cargoType = JUndefined, b_cargoWeight = JUndefined,
     b_specialInstructions = JUndefined, b_departureDate = JUndefined,
     b_arrivalDate = JUndefined, b_status = JUndefined, b_truckId = JUndefined,
     b_driverId = JUndefined\<rparr>"

text \<open>A new Bill as the controller constructs it, before the pre-save hook.\<close>

definition bill0 :: bill where
  "bill0 = \<lparr>bl_billId = 0, bl_clientId = JStr ''65a1f0c2e4b0a1b2c3d4e5f6'',
     bl_shipmentId = JStr ''65a1f0c2e4b0a1b2c3d4e5f7'', bl_issueDate = JStr ''2024-01-06'',
     bl_dueDate = JStr ''2024-02-05'', bl_amount = JNum 1000, bl_taxAmount = JNum 180,
     bl_totalAmount = JNum 1180, bl_paymentStatus = JStr ''pending'',
     bl_paymentMethod = JUndefined, bl_paymentDate = JUndefined, bl_GSTIN = JUndefined,
     bl_specialInstructions = JUndefined, bl_fuelCost = JUndefined\<rparr>"

definition emptyDriverBody :: driver_body where
  "emptyDriverBody = \<lparr>db_name = JUndefined, db_licenseNumber = JUndefined,
     db_phoneNumber = JUndefined, db_address = JUndefined, db_salary = JUndefined,
     db_experience = JUndefined, db_availabilityStatus = JUndefined,
     db_assignedTruck = JUndefined\<rparr>"

section \<open>Auxiliary facts\<close>

subsection \<open>Lookups and updates\<close>

lemma findOneBy_Some:
  "findOneBy L key docs v = Inr (Some d) \<Longrightarrow>
     castNumber L v = CastNum (key d) \<and> find (\<lambda>x. key x = key d) docs = Some d"
  by (auto simp: findOneBy_def split: cast.splits dest: find_Some_iff[THEN iffD1])

lemma find_updateFirst:
  "(\<And>x. P (f x) = P x) \<Longrightarrow> find P (updateFirst P f xs) = map_option f (find P xs)"
  by (induction xs) auto



subsection \<open>The three checks\<close>

lemma checkTruck_Reject:
  "checkTruck L S v = (Reject m, ops) \<Longrightarrow>
     ops = [Op_Truck_findOne v] \<and> truthy v \<and>
     ((Truck_findOne L S v = Inr None \<and> m = ''Invalid Truck ID. Truck does not exist.'')
      \<or> (\<exists>t. Truck_findOne L S v = Inr (Some t) \<and> t_availabilityStatus t \<noteq> JStr ''Available''
             \<and> m = ''Truck is not available.''))"
  by (auto simp: checkTruck_def split: if_splits sum.splits option.splits)

lemma checkTruck_Pass:
  "checkTruck L S v = (Pass, ops) \<Longrightarrow>
     (\<not> truthy v \<and> ops = [])
      \<or> (truthy v \<and> ops = [Op_Truck_findOne v] \<and>
          (\<exists>t. Truck_findOne L S v = Inr (Some t) \<and> t_availabilityStatus t = JStr ''Available''))"
  by (auto simp: checkTruck_def split: if_splits sum.splits option.splits)

lemma checkTruck_Raise:
  "checkTruck L S v = (Raise e, ops) \<Longrightarrow>
     ops = [Op_Truck_findOne v] \<and> truthy v \<and> Truck_findOne L S v = Inl e"
  by (auto simp: checkTruck_def split: if_splits sum.splits option.splits)

lemma checkDriver_Reject:
  "checkDriver L S v = (Reject m, ops) \<Longrightarrow>
     ops = [Op_Driver_findOne v] \<and> truthy v \<and>
     ((Driver_findOne L S v = Inr None \<and> m = ''Invalid Driver ID. Driver does not exist.'')
      \<or> (\<exists>d. Driver_findOne L S v = Inr (Some d) \<and> d_availabilityStatus d \<noteq> JStr ''Available''
             \<and> m = ''Driver is not available.''))"
  by (auto simp: checkDriver_def split: if_splits sum.splits option.splits)

lemma checkDriver_Pass:
  "checkDriver L S v = (Pass, ops) \<Longrightarrow>
     (\<not> truthy v \<and> ops = [])
      \<or> (truthy v \<and> ops = [Op_Driver_findOne v] \<and>
          (\<exists>d. Driver_findOne L S v = Inr (Some d) \<and> d_availabilityStatus d = JStr ''Available''))"
  by (auto simp: checkDriver_def split: if_splits sum.splits option.splits)

lemma checkDriver_Raise:
  "checkDriver L S v = (Raise e, ops) \<Longrightarrow>
     ops = [Op_Driver_findOne v] \<and> truthy v \<and> Driver_findOne L S v = Inl e"
  by (auto simp: checkDriver_def split: if_splits sum.splits option.splits)

lemma checkClient_Reject:
  "checkClient L S v = (Reject m, ops) \<Longrightarrow>
     ops = [Op_Client_findOne v] \<and> truthy v \<and> Client_findOne L S v = Inr None
     \<and> m = ''Invalid Client ID. Client does not exist.''"
  by (auto simp: checkClient_def split: if_splits sum.splits option.splits)

lemma checkClient_Pass:
  "checkClient L S v = (Pass, ops) \<Longrightarrow>
     (\<not> truthy v \<and> ops = [])
      \<or> (truthy v \<and> ops = [Op_Client_findOne v] \<and> (\<exists>c. Client_findOne L S v = Inr (Some c)))"
  by (auto simp: checkClient_def split: if_splits sum.splits option.splits)

lemma checkClient_Raise:
  "checkClient L S v = (Raise e, ops) \<Longrightarrow>
     ops = [Op_Client_findOne v] \<and> truthy v \<and> Client_findOne L S v = Inl e"
  by (auto simp: checkClient_def split: if_splits sum.splits option.splits)


lemma falsy_castOk: "\<not> truthy v \<Longrightarrow> castOk (castNumber L v)"
  by (cases v) auto

lemma trucks_Shipment_save [simp]: "trucks (snd (Shipment_save S doc)) = trucks S"
  and drivers_Shipment_save [simp]: "drivers (snd (Shipment_save S doc)) = drivers S"
  and clients_Shipment_save [simp]: "clients (snd (Shipment_save S doc)) = clients S"
  and shipments_Shipment_save [simp]:
     "shipments (snd (Shipment_save S doc)) = shipments S @ [fst (Shipment_save S doc)]"
  by (simp_all add: Shipment_save_def Let_def split: prod.splits)


subsection \<open>The paths through createShipment\<close>

lemma createShipment_invalid:
  "validateCreateShipment L b \<noteq> [] \<Longrightarrow>
     createShipment L b S = (Response 400 (Errors (validateCreateShipment L b)), S, [])"
  by (simp add: createShipment_def)

lemma createShipment_truck_Reject:
  "validateCreateShipment L b = [] \<Longrightarrow> checkTruck L S (b_truckId b) = (Reject m, t1) \<Longrightarrow>
     createShipment L b S = (Response 400 (Failure m), S, t1)"
  by (simp add: createShipment_def)

lemma createShipment_truck_Raise:
  "validateCreateShipment L b = [] \<Longrightarrow> checkTruck L S (b_truckId b) = (Raise e, t1) \<Longrightarrow>
     createShipment L b S = (internalError, S, t1)"
  by (simp add: createShipment_def)

lemma createShipment_driver_Reject:
  "validateCreateShipment L b = [] \<Longrightarrow> checkTruck L S (b_truckId b) = (Pass, t1) \<Longrightarrow>
   checkDriver L S (b_driverId b) = (Reject m, t2) \<Longrightarrow>
     createShipment L b S = (Response 400 (Failure m), S, t1 @ t2)"
  by (simp add: createShipment_def)

lemma createShipment_driver_Raise:
  "validateCreateShipment L b = [] \<Longrightarrow> checkTruck L S (b_truckId b) = (Pass, t1) \<Longrightarrow>
   checkDriver L S (b_driverId b) = (Raise e, t2) \<Longrightarrow>
     createShipment L b S = (internalError, S, t1 @ t2)"
  by (simp add: createShipment_def)

lemma createShipment_client_Reject:
  "validateCreateShipment L b = [] \<Longrightarrow> checkTruck L S (b_truckId b) = (Pass, t1) \<Longrightarrow>
   checkDriver L S (b_driverId b) = (Pass, t2) \<Longrightarrow>
   checkClient L S (b_clientId b) = (Reject m, t3) \<Longrightarrow>
     createShipment L b S = (Response 400 (Failure m), S, t1 @ t2 @ t3)"
  by (simp add: createShipment_def)

lemma createShipment_client_Raise:
  "validateCreateShipment L b = [] \<Longrightarrow> checkTruck L S (b_truckId b) = (Pass, t1) \<Longrightarrow>
   checkDriver L S (b_driverId b) = (Pass, t2) \<Longrightarrow>
   checkClient L S (b_clientId b) = (Raise e, t3) \<Longrightarrow>
     createShipment L b S = (internalError, S, t1 @ t2 @ t3)"
  by (simp add: createShipment_def)

lemma castOk_of_Pass:
  "checkTruck L S v = (Pass, t1) \<Longrightarrow> castOk (castNumber L v)"
  "checkDriver L S v = (Pass, t2) \<Longrightarrow> castOk (castNumber L v)"
  "checkClient L S v = (Pass, t3) \<Longrightarrow> castOk (castNumber L v)"
  by (auto simp: Truck_findOne_def Driver_findOne_def Client_findOne_def
        dest!: checkTruck_Pass checkDriver_Pass checkClient_Pass findOneBy_Some
        intro: falsy_castOk)

text \<open>
  When the three checks pass, the shipment is saved, the truck and the driver are updated
  when their ids are truthy, and the answer is 201.
\<close>

lemma createShipment_Pass:
  assumes valid: "validateCreateShipment L b = []"
    and pt: "checkTruck L S (b_truckId b) = (Pass, t1)"
    and pd: "checkDriver L S (b_driverId b) = (Pass, t2)"
    and pc: "checkClient L S (b_clientId b) = (Pass, t3)"
  shows "\<exists>doc assign.
    Shipment_new L b (if b_status b = JUndefined then JStr ''pending'' else b_status b) = Inr doc
    \<and> setAssignedTruck L (b_truckId b) = Inr assign
    \<and> createShipment L b S =
       (Response 201 (Created ''Shipment created successfully.'' (fst (Shipment_save S doc))),
        (snd (Shipment_save S doc))
          \<lparr>trucks :=
             (if truthy (b_truckId b)
              then updateFirst (\<lambda>t. CastNum (t_truckId t) = castNumber L (b_truckId b))
                     (\<lambda>t. t\<lparr>t_availabilityStatus := JStr ''Not Available''\<rparr>) (trucks S)
              else trucks S),
           drivers :=
             (if truthy (b_driverId b)
              then updateFirst (\<lambda>d. CastNum (d_driverId d) = castNumber L (b_driverId b))
                     (\<lambda>d. assign (d\<lparr>d_availabilityStatus := JStr ''Not Available''\<rparr>)) (drivers S)
              else drivers S)\<rparr>,
        t1 @ t2 @ t3 @ [Op_Shipment_save]
        @ (if truthy (b_truckId b) then [Op_Truck_updateOne (b_truckId b)] else [])
        @ (if truthy (b_driverId b) then [Op_Driver_updateOne (b_driverId b)] else []))"
proof -
  let ?st = "if b_status b = JUndefined then JStr ''pending'' else b_status b"
  have ok: "castOk (castNumber L (b_truckId b))" "castOk (castNumber L (b_driverId b))"
    "castOk (castNumber L (b_clientId b))"
    using castOk_of_Pass pt pd pc by blast+
  then obtain doc where doc: "Shipment_new L b ?st = Inr doc"
    by (simp add: Shipment_new_def)
  from ok(1) have "\<exists>assign. setAssignedTruck L (b_truckId b) = Inr assign"
    by (cases "castNumber L (b_truckId b)") (simp_all add: setAssignedTruck_def)
  then obtain assign where assign: "setAssignedTruck L (b_truckId b) = Inr assign" ..
  have tcast: "truthy (b_truckId b) \<Longrightarrow> \<exists>n. castNumber L (b_truckId b) = CastNum n"
    using pt by (auto simp: Truck_findOne_def dest!: checkTruck_Pass findOneBy_Some)
  have dcast: "truthy (b_driverId b) \<Longrightarrow> \<exists>n. castNumber L (b_driverId b) = CastNum n"
    using pd by (auto simp: Driver_findOne_def dest!: checkDriver_Pass findOneBy_Some)
  have "createShipment L b S =
       (Response 201 (Created ''Shipment created successfully.'' (fst (Shipment_save S doc))),
        (snd (Shipment_save S doc))
          \<lparr>trucks :=
             (if truthy (b_truckId b)
              then updateFirst (\<lambda>t. CastNum (t_truckId t) = castNumber L (b_truckId b))
                     (\<lambda>t. t\<lparr>t_availabilityStatus := JStr ''Not Available''\<rparr>) (trucks S)
              else trucks S),
           drivers :=
             (if truthy (b_driverId b)
              then updateFirst (\<lambda>d. CastNum (d_driverId d) = castNumber L (b_driverId b))
                     (\<lambda>d. assign (d\<lparr>d_availabilityStatus := JStr ''Not Available''\<rparr>)) (drivers S)
              else drivers S)\<rparr>,
        t1 @ t2 @ t3 @ [Op_Shipment_save]
        @ (if truthy (b_truckId b) then [Op_Truck_updateOne (b_truckId b)] else [])
        @ (if truthy (b_driverId b) then [Op_Driver_updateOne (b_driverId b)] else []))"
    using valid pt pd pc doc assign tcast dcast
    by (auto simp: createShipment_def Let_def case_prod_beta Truck_updateOne_def
          Driver_updateOne_def)
  with doc assign show ?thesis by blast
qed

lemma check_ops:
  "checkTruck L S v = (c, ops) \<Longrightarrow> set ops \<subseteq> range Op_Truck_findOne"
  "checkDriver L S v = (c, ops) \<Longrightarrow> set ops \<subseteq> range Op_Driver_findOne"
  "checkClient L S v = (c, ops) \<Longrightarrow> set ops \<subseteq> range Op_Client_findOne"
  by (auto simp: checkTruck_def checkDriver_def checkClient_def
        split: if_splits sum.splits option.splits)

text \<open>Every run of the handler takes one of eight paths.\<close>

lemma createShipment_paths:
  obtains
    (Invalid) "validateCreateShipment L b \<noteq> []"
      "createShipment L b S = (Response 400 (Errors (validateCreateShipment L b)), S, [])"
  | (TruckReject) m t1 where "validateCreateShipment L b = []"
      "checkTruck L S (b_truckId b) = (Reject m, t1)"
      "createShipment L b S = (Response 400 (Failure m), S, t1)"
  | (TruckRaise) e t1 where "validateCreateShipment L b = []"
      "checkTruck L S (b_truckId b) = (Raise e, t1)"
      "createShipment L b S = (internalError, S, t1)"
  | (DriverReject) m t1 t2 where "validateCreateShipment L b = []"
      "checkTruck L S (b_truckId b) = (Pass, t1)"
      "checkDriver L S (b_driverId b) = (Reject m, t2)"
      "createShipment L b S = (Response 400 (Failure m), S, t1 @ t2)"
  | (DriverRaise) e t1 t2 where "validateCreateShipment L b = []"
      "checkTruck L S (b_truckId b) = (Pass, t1)"
      "checkDriver L S (b_driverId b) = (Raise e, t2)"
      "createShipment L b S = (internalError, S, t1 @ t2)"
  | (ClientReject) m t1 t2 t3 where "validateCreateShipment L b = []"
      "checkTruck L S (b_truckId b) = (Pass, t1)"
      "checkDriver L S (b_driverId b) = (Pass, t2)"
      "checkClient L S (b_clientId b) = (Reject m, t3)"
      "createShipment L b S = (Response 400 (Failure m), S, t1 @ t2 @ t3)"
  | (ClientRaise) e t1 t2 t3 where "validateCreateShipment L b = []"
      "checkTruck L S (b_truckId b) = (Pass, t1)"
      "checkDriver L S (b_driverId b) = (Pass, t2)"
      "checkClient L S (b_clientId b) = (Raise e, t3)"
      "createShipment L b S = (internalError, S, t1 @ t2 @ t3)"
  | (Created) t1 t2 t3 doc assign where "validateCreateShipment L b = []"
      "checkTruck L S (b_truckId b) = (Pass, t1)"
      "checkDriver L S (b_driverId b) = (Pass, t2)"
      "checkClient L S (b_clientId b) = (Pass, t3)"
      "Shipment_new L b (if b_status b = JUndefined then JStr ''pending'' else b_status b)
         = Inr doc"
      "setAssignedTruck L (b_truckId b) = Inr assign"
      "createShipment L b S =
       (Response 201 (Created ''Shipment created successfully.'' (fst (Shipment_save S doc))),
        (snd (Shipment_save S doc))
          \<lparr>trucks :=
             (if truthy (b_truckId b)
              then updateFirst (\<lambda>t. CastNum (t_truckId t) = castNumber L (b_truckId b))
                     (\<lambda>t. t\<lparr>t_availabilityStatus := JStr ''Not Available''\<rparr>) (trucks S)
              else trucks S),
           drivers :=
             (if truthy (b_driverId b)
              then updateFirst (\<lambda>d. CastNum (d_driverId d) = castNumber L (b_driverId b))
                     (\<lambda>d. assign (d\<lparr>d_availabilityStatus := JStr ''Not Available''\<rparr>)) (drivers S)
              else drivers S)\<rparr>,
        t1 @ t2 @ t3 @ [Op_Shipment_save]
        @ (if truthy (b_truckId b) then [Op_Truck_updateOne (b_truckId b)] else [])
        @ (if truthy (b_driverId b) then [Op_Driver_updateOne (b_driverId b)] else []))"
proof (cases "validateCreateShipment L b = []")
  case False
  then show ?thesis using Invalid createShipment_invalid by blast
next
  case valid: True
  obtain c1 t1 where c1: "checkTruck L S (b_truckId b) = (c1, t1)" by (cases "checkTruck L S (b_truckId b)")
  obtain c2 t2 where c2: "checkDriver L S (b_driverId b) = (c2, t2)" by (cases "checkDriver L S (b_driverId b)")
  obtain c3 t3 where c3: "checkClient L S (b_clientId b) = (c3, t3)" by (cases "checkClient L S (b_clientId b)")
  show ?thesis
  proof (cases c1)
    case (Reject m)
    with valid c1 show ?thesis using TruckReject createShipment_truck_Reject by blast
  next
    case (Raise e)
    with valid c1 show ?thesis using TruckRaise createShipment_truck_Raise by blast
  next
    case p1: Pass
    show ?thesis
    proof (cases c2)
      case (Reject m)
      with valid c1 p1 c2 show ?thesis using DriverReject createShipment_driver_Reject by blast
    next
      case (Raise e)
      with valid c1 p1 c2 show ?thesis using DriverRaise createShipment_driver_Raise by blast
    next
      case p2: Pass
      show ?thesis
      proof (cases c3)
        case (Reject m)
        with valid c1 p1 c2 p2 c3 show ?thesis
          using ClientReject createShipment_client_Reject by blast
      next
        case (Raise e)
        with valid c1 p1 c2 p2 c3 show ?thesis
          using ClientRaise createShipment_client_Raise by blast
      next
        case p3: Pass
        from createShipment_Pass[OF valid c1[unfolded p1] c2[unfolded p2] c3[unfolded p3]]
        obtain doc assign where
          "Shipment_new L b (if b_status b = JUndefined then JStr ''pending'' else b_status b)
             = Inr doc"
          "setAssignedTruck L (b_truckId b) = Inr assign"
          "createShipment L b S =
           (Response 201 (Created ''Shipment created successfully.'' (fst (Shipment_save S doc))),
            (snd (Shipment_save S doc))
              \<lparr>trucks :=
                 (if truthy (b_truckId b)
                  then updateFirst (\<lambda>t. CastNum (t_truckId t) = castNumber L (b_truckId b))
                         (\<lambda>t. t\<lparr>t_availabilityStatus := JStr ''Not Available''\<rparr>) (trucks S)
                  else trucks S),
               drivers :=
                 (if truthy (b_driverId b)
                  then updateFirst (\<lambda>d. CastNum (d_driverId d) = castNumber L (b_driverId b))
                         (\<lambda>d. assign (d\<lparr>d_availabilityStatus := JStr ''Not Available''\<rparr>)) (drivers S)
                  else drivers S)\<rparr>,
            t1 @ t2 @ t3 @ [Op_Shipment_save]
            @ (if truthy (b_truckId b) then [Op_Truck_updateOne (b_truckId b)] else [])
            @ (if truthy (b_driverId b) then [Op_Driver_updateOne (b_driverId b)] else []))"
          by blast
        with valid c1 p1 c2 p2 c3 p3 show ?thesis using Created by blast
      qed
    qed
  qed
qed

subsection \<open>The saved shipment and the assignment\<close>

lemma Shipment_new_fields:
  "Shipment_new L b st = Inr doc \<Longrightarrow>
     s_status doc = st \<and> s_clientId doc = idOf (castNumber L (b_clientId b))
     \<and> s_truckId doc = idOf (castNumber L (b_truckId b))
     \<and> s_driverId doc = idOf (castNumber L (b_driverId b))"
  by (auto simp: Shipment_new_def split: if_splits)

lemma fst_Shipment_save:
  "fst (Shipment_save S doc)
     = doc\<lparr>s_shipmentId := fst (Counter_findOneAndUpdate ''shipmentId'' (counters S))\<rparr>"
  by (simp add: Shipment_save_def Let_def case_prod_beta)

lemma setAssignedTruck_undefined:
  "setAssignedTruck L JUndefined = Inr assign \<Longrightarrow>
     assign = (\<lambda>d. if omitUndefined L then d else d\<lparr>d_assignedTruck := None\<rparr>)"
  by (auto simp: setAssignedTruck_def split: if_splits)

lemma list_all2_updateFirst:
  "(\<And>x. R x x) \<Longrightarrow> (\<And>x. R x (f x)) \<Longrightarrow> list_all2 R xs (updateFirst P f xs)"
  by (induction xs) (auto intro: list_all2_refl)

lemma check_falsy:
  "\<not> truthy v \<Longrightarrow> checkTruck L S v = (Pass, [])"
  "\<not> truthy v \<Longrightarrow> checkDriver L S v = (Pass, [])"
  "\<not> truthy v \<Longrightarrow> checkClient L S v = (Pass, [])"
  by (simp_all add: checkTruck_def checkDriver_def checkClient_def)

section \<open>Properties of createShipment\<close>

text \<open>
  C1. For a request that passed the field validation the business-rule checks run in the
  order truck, driver, client. The first check that fails answers 400 with its own
  message and nothing after it runs: the store operations issued end with the lookup of
  the failing check, and the store is as before. A check runs when its id is truthy;
  the truck and driver checks fail when the lookup finds no document or one whose
  status is not \<^verbatim>\<open>Available\<close>, the client check when the lookup finds none. When no
  check fails, the lookups are followed by the save and the updates, and the answer is
  201. The messages are those of the code; the first sentence of each is the short form
  \<^verbatim>\<open>Invalid Truck ID.\<close> (and so on) of the specification.
\<close>

theorem createShipment_checks_in_order:
  assumes "validateCreateShipment L b = []"
  shows
   "(truthy (b_truckId b) \<and> Truck_findOne L S (b_truckId b) = Inr None \<longrightarrow>
       createShipment L b S =
         (Response 400 (Failure ''Invalid Truck ID. Truck does not exist.''), S,
          [Op_Truck_findOne (b_truckId b)]))
    \<and> (truthy (b_truckId b)
        \<and> (\<exists>t. Truck_findOne L S (b_truckId b) = Inr (Some t)
                \<and> t_availabilityStatus t \<noteq> JStr ''Available'') \<longrightarrow>
       createShipment L b S =
         (Response 400 (Failure ''Truck is not available.''), S,
          [Op_Truck_findOne (b_truckId b)]))
    \<and> ((\<not> truthy (b_truckId b)
          \<or> (\<exists>t. Truck_findOne L S (b_truckId b) = Inr (Some t)
                  \<and> t_availabilityStatus t = JStr ''Available''))
        \<and> truthy (b_driverId b) \<and> Driver_findOne L S (b_driverId b) = Inr None \<longrightarrow>
       createShipment L b S =
         (Response 400 (Failure ''Invalid Driver ID. Driver does not exist.''), S,
          (if truthy (b_truckId b) then [Op_Truck_findOne (b_truckId b)] else [])
          @ [Op_Driver_findOne (b_driverId b)]))
    \<and> ((\<not> truthy (b_truckId b)
          \<or> (\<exists>t. Truck_findOne L S (b_truckId b) = Inr (Some t)
                  \<and> t_availabilityStatus t = JStr ''Available''))
        \<and> truthy (b_driverId b)
        \<and> (\<exists>d. Driver_findOne L S (b_driverId b) = Inr (Some d)
                \<and> d_availabilityStatus d \<noteq> JStr ''Available'') \<longrightarrow>
       createShipment L b S =
         (Response 400 (Failure ''Driver is not available.''), S,
          (if truthy (b_truckId b) then [Op_Truck_findOne (b_truckId b)] else [])
          @ [Op_Driver_findOne (b_driverId b)]))
    \<and> ((\<not> truthy (b_truckId b)
          \<or> (\<exists>t. Truck_findOne L S (b_truckId b) = Inr (Some t)
                  \<and> t_availabilityStatus t = JStr ''Available''))
        \<and> (\<not> truthy (b_driverId b)
          \<or> (\<exists>d. Driver_findOne L S (b_driverId b) = Inr (Some d)
                  \<and> d_availabilityStatus d = JStr ''Available''))
        \<and> truthy (b_clientId b) \<and> Client_findOne L S (b_clientId b) = Inr None \<longrightarrow>
       createShipment L b S =
         (Response 400 (Failure ''Invalid Client ID. Client does not exist.''), S,
          (if truthy (b_truckId b) then [Op_Truck_findOne (b_truckId b)] else [])
          @ (if truthy (b_driverId b) then [Op_Driver_findOne (b_driverId b)] else [])
          @ [Op_Client_findOne (b_clientId b)]))
    \<and> ((\<not> truthy (b_truckId b)
          \<or> (\<exists>t. Truck_findOne L S (b_truckId b) = Inr (Some t)
                  \<and> t_availabilityStatus t = JStr ''Available''))
        \<and> (\<not> truthy (b_driverId b)
          \<or> (\<exists>d. Driver_findOne L S (b_driverId b) = Inr (Some d)
                  \<and> d_availabilityStatus d = JStr ''Available''))
        \<and> (\<not> truthy (b_clientId b)
          \<or> (\<exists>c. Client_findOne L S (b_clientId b) = Inr (Some c))) \<longrightarrow>
       status (fst (createShipment L b S)) = 201
       \<and> snd (snd (createShipment L b S)) =
          (if truthy (b_truckId b) then [Op_Truck_findOne (b_truckId b)] else [])
          @ (if truthy (b_driverId b) then [Op_Driver_findOne (b_driverId b)] else [])
          @ (if truthy (b_clientId b) then [Op_Client_findOne (b_clientId b)] else [])
          @ [Op_Shipment_save]
          @ (if truthy (b_truckId b) then [Op_Truck_updateOne (b_truckId b)] else [])
          @ (if truthy (b_driverId b) then [Op_Driver_updateOne (b_driverId b)] else []))"
proof -
  let ?truckOk = "\<not> truthy (b_truckId b)
          \<or> (\<exists>t. Truck_findOne L S (b_truckId b) = Inr (Some t)
                  \<and> t_availabilityStatus t = JStr ''Available'')"
  let ?driverOk = "\<not> truthy (b_driverId b)
          \<or> (\<exists>d. Driver_findOne L S (b_driverId b) = Inr (Some d)
                  \<and> d_availabilityStatus d = JStr ''Available'')"
  let ?clientOk = "\<not> truthy (b_clientId b)
          \<or> (\<exists>c. Client_findOne L S (b_clientId b) = Inr (Some c))"
  let ?t1 = "if truthy (b_truckId b) then [Op_Truck_findOne (b_truckId b)] else []"
  let ?t2 = "if truthy (b_driverId b) then [Op_Driver_findOne (b_driverId b)] else []"
  let ?t3 = "if truthy (b_clientId b) then [Op_Client_findOne (b_clientId b)] else []"
  have pt: "checkTruck L S (b_truckId b) = (Pass, ?t1)" if ?truckOk
    using that by (auto simp: checkTruck_def)
  have pd: "checkDriver L S (b_driverId b) = (Pass, ?t2)" if ?driverOk
    using that by (auto simp: checkDriver_def)
  have pc: "checkClient L S (b_clientId b) = (Pass, ?t3)" if ?clientOk
    using that by (auto simp: checkClient_def)
  have created: "status (fst (createShipment L b S)) = 201
       \<and> snd (snd (createShipment L b S)) =
          ?t1 @ ?t2 @ ?t3 @ [Op_Shipment_save]
          @ (if truthy (b_truckId b) then [Op_Truck_updateOne (b_truckId b)] else [])
          @ (if truthy (b_driverId b) then [Op_Driver_updateOne (b_driverId b)] else [])"
    if ?truckOk ?driverOk ?clientOk
    using createShipment_Pass [OF assms pt [OF that(1)] pd [OF that(2)] pc [OF that(3)]]
    by auto
  have rejected:
   "(truthy (b_truckId b) \<and> Truck_findOne L S (b_truckId b) = Inr None \<longrightarrow>
       createShipment L b S =
         (Response 400 (Failure ''Invalid Truck ID. Truck does not exist.''), S,
          [Op_Truck_findOne (b_truckId b)]))
    \<and> (truthy (b_truckId b)
        \<and> (\<exists>t. Truck_findOne L S (b_truckId b) = Inr (Some t)
                \<and> t_availabilityStatus t \<noteq> JStr ''Available'') \<longrightarrow>
       createShipment L b S =
         (Response 400 (Failure ''Truck is not available.''), S,
          [Op_Truck_findOne (b_truckId b)]))
    \<and> (?truckOk \<and> truthy (b_driverId b) \<and> Driver_findOne L S (b_driverId b) = Inr None \<longrightarrow>
       createShipment L b S =
         (Response 400 (Failure ''Invalid Driver ID. Driver does not exist.''), S,
          ?t1 @ [Op_Driver_findOne (b_driverId b)]))
    \<and> (?truckOk \<and> truthy (b_driverId b)
        \<and> (\<exists>d. Driver_findOne L S (b_driverId b) = Inr (Some d)
                \<and> d_availabilityStatus d \<noteq> JStr ''Available'') \<longrightarrow>
       createShipment L b S =
         (Response 400 (Failure ''Driver is not available.''), S,
          ?t1 @ [Op_Driver_findOne (b_driverId b)]))
    \<and> (?truckOk \<and> ?driverOk
        \<and> truthy (b_clientId b) \<and> Client_findOne L S (b_clientId b) = Inr None \<longrightarrow>
       createShipment L b S =
         (Response 400 (Failure ''Invalid Client ID. Client does not exist.''), S,
          ?t1 @ ?t2 @ [Op_Client_findOne (b_clientId b)]))"
    using assms
    by (auto simp: createShipment_def Let_def checkTruck_def checkDriver_def checkClient_def)
  from rejected created show ?thesis by blast
qed

theorem createShipment_checks_in_order_witness:
  "validateCreateShipment stdLib (request1\<lparr>b_truckId := JNum 7\<rparr>) = []
   \<and> Truck_findOne stdLib store1 (JNum 7) = Inr None
   \<and> createShipment stdLib (request1\<lparr>b_truckId := JNum 7\<rparr>) store1 =
       (Response 400 (Failure ''Invalid Truck ID. Truck does not exist.''), store1,
        [Op_Truck_findOne (JNum 7)])
   \<and> validateCreateShipment stdLib (request1\<lparr>b_truckId := JNum 2\<rparr>) = []
   \<and> Truck_findOne stdLib store1 (JNum 2) = Inr (Some truck2)
   \<and> t_availabilityStatus truck2 \<noteq> JStr ''Available''
   \<and> createShipment stdLib (request1\<lparr>b_truckId := JNum 2\<rparr>) store1 =
       (Response 400 (Failure ''Truck is not available.''), store1, [Op_Truck_findOne (JNum 2)])
   \<and> validateCreateShipment stdLib (request1\<lparr>b_truckId := JNum 1, b_driverId := JNum 7\<rparr>) = []
   \<and> Truck_findOne stdLib store1 (JNum 1) = Inr (Some truck1)
   \<and> t_availabilityStatus truck1 = JStr ''Available''
   \<and> Driver_findOne stdLib store1 (JNum 7) = Inr None
   \<and> createShipment stdLib (request1\<lparr>b_truckId := JNum 1, b_driverId := JNum 7\<rparr>) store1 =
       (Response 400 (Failure ''Invalid Driver ID. Driver does not exist.''), store1,
        [Op_Truck_findOne (JNum 1), Op_Driver_findOne (JNum 7)])
   \<and> validateCreateShipment stdLib (request1\<lparr>b_driverId := JNum 2\<rparr>) = []
   \<and> Driver_findOne stdLib store1 (JNum 2) = Inr (Some driver2)
   \<and> d_availabilityStatus driver2 \<noteq> JStr ''Available''
   \<and> createShipment stdLib (request1\<lparr>b_driverId := JNum 2\<rparr>) store1 =
       (Response 400 (Failure ''Driver is not available.''), store1, [Op_Driver_findOne (JNum 2)])
   \<and> validateCreateShipment stdLib
        (request1\<lparr>b_clientId := JNum 9, b_truckId := JNum 1, b_driverId := JNum 1\<rparr>) = []
   \<and> Driver_findOne stdLib store1 (JNum 1) = Inr (Some driver1)
   \<and> d_availabilityStatus driver1 = JStr ''Available''
   \<and> Client_findOne stdLib store1 (JNum 9) = Inr None
   \<and> createShipment stdLib
        (request1\<lparr>b_clientId := JNum 9, b_truckId := JNum 1, b_driverId := JNum 1\<rparr>) store1 =
       (Response 400 (Failure ''Invalid Client ID. Client does not exist.''), store1,
        [Op_Truck_findOne (JNum 1), Op_Driver_findOne (JNum 1), Op_Client_findOne (JNum 9)])
   \<and> validateCreateShipment stdLib (request1\<lparr>b_truckId := JNum 1, b_driverId := JNum 1\<rparr>) = []
   \<and> Client_findOne stdLib store1 (JNum 1) = Inr (Some client1)
   \<and> status (fst (createShipment stdLib
        (request1\<lparr>b_truckId := JNum 1, b_driverId := JNum 1\<rparr>) store1)) = 201
   \<and> snd (snd (createShipment stdLib
        (request1\<lparr>b_truckId := JNum 1, b_driverId := JNum 1\<rparr>) store1)) =
       [Op_Truck_findOne (JNum 1), Op_Driver_findOne (JNum 1), Op_Client_findOne (JNum 1),
        Op_Shipment_save, Op_Truck_updateOne (JNum 1), Op_Driver_updateOne (JNum 1)]"
proof -
  have v1: "validateCreateShipment stdLib (request1\<lparr>b_truckId := JNum 7\<rparr>) = []"
    and v2: "validateCreateShipment stdLib (request1\<lparr>b_truckId := JNum 2\<rparr>) = []"
    and v3: "validateCreateShipment stdLib (request1\<lparr>b_truckId := JNum 1, b_driverId := JNum 7\<rparr>) = []"
    and v4: "validateCreateShipment stdLib (request1\<lparr>b_driverId := JNum 2\<rparr>) = []"
    and v5: "validateCreateShipment stdLib
               (request1\<lparr>b_clientId := JNum 9, b_truckId := JNum 1, b_driverId := JNum 1\<rparr>) = []"
    and v6: "validateCreateShipment stdLib (request1\<lparr>b_truckId := JNum 1, b_driverId := JNum 1\<rparr>) = []"
    by code_simp+
  have t7: "Truck_findOne stdLib store1 (JNum 7) = Inr None"
    and t2: "Truck_findOne stdLib store1 (JNum 2) = Inr (Some truck2)"
    and t1: "Truck_findOne stdLib store1 (JNum 1) = Inr (Some truck1)"
    and d7: "Driver_findOne stdLib store1 (JNum 7) = Inr None"
    and d2: "Driver_findOne stdLib store1 (JNum 2) = Inr (Some driver2)"
    and d1: "Driver_findOne stdLib store1 (JNum 1) = Inr (Some driver1)"
    and c9: "Client_findOne stdLib store1 (JNum 9) = Inr None"
    and c1: "Client_findOne stdLib store1 (JNum 1) = Inr (Some client1)"
    by code_simp+
  have a: "t_availabilityStatus truck2 \<noteq> JStr ''Available''"
    "t_availabilityStatus truck1 = JStr ''Available''"
    "d_availabilityStatus driver2 \<noteq> JStr ''Available''"
    "d_availabilityStatus driver1 = JStr ''Available''"
    by (simp_all add: truck1_def truck2_def driver1_def driver2_def)
  have b: "b_truckId request1 = JUndefined" "b_driverId request1 = JUndefined"
    "b_clientId request1 = JNum 1"
    by (simp_all add: request1_def)
  note r1 = createShipment_checks_in_order [OF v1, of store1]
   and r2 = createShipment_checks_in_order [OF v2, of store1]
   and r3 = createShipment_checks_in_order [OF v3, of store1]
   and r4 = createShipment_checks_in_order [OF v4, of store1]
   and r5 = createShipment_checks_in_order [OF v5, of store1]
   and r6 = createShipment_checks_in_order [OF v6, of store1]
  show ?thesis
    using v1 v2 v3 v4 v5 v6 t7 t2 t1 d7 d2 d1 c9 c1 a b r1 r2 r3 r4 r5 r6 by simp
qed



text \<open>
  C3. A request that fails a business-rule check creates no shipment and changes no
  truck or driver. Whenever the truck, the driver or the client check of a request fails
  (its id is truthy and the lookup finds nothing, or finds a truck or driver that is not
  \<^verbatim>\<open>Available\<close>), the store after the request is the store before it, nothing but
  lookups was issued, and the request did not succeed. And whenever the business-rule
  response \<^verbatim>\<open>{ success: false, message }\<close> is returned, its status is 400, its
  message is one of the five of the checks, and the store is unchanged.
\<close>

theorem createShipment_rejection_leaves_store:
  "((truthy (b_truckId b)
       \<and> (Truck_findOne L S (b_truckId b) = Inr None
           \<or> (\<exists>t. Truck_findOne L S (b_truckId b) = Inr (Some t)
                   \<and> t_availabilityStatus t \<noteq> JStr ''Available'')))
     \<or> (truthy (b_driverId b)
       \<and> (Driver_findOne L S (b_driverId b) = Inr None
           \<or> (\<exists>d. Driver_findOne L S (b_driverId b) = Inr (Some d)
                   \<and> d_availabilityStatus d \<noteq> JStr ''Available'')))
     \<or> (truthy (b_clientId b) \<and> Client_findOne L S (b_clientId b) = Inr None)
     \<longrightarrow> fst (snd (createShipment L b S)) = S
         \<and> set (snd (snd (createShipment L b S)))
              \<subseteq> range Op_Truck_findOne \<union> range Op_Driver_findOne \<union> range Op_Client_findOne
         \<and> status (fst (createShipment L b S)) \<in> {400, 500})
   \<and> (\<forall>code m. fst (createShipment L b S) = Response code (Failure m) \<longrightarrow>
         code = 400
         \<and> m \<in> {''Invalid Truck ID. Truck does not exist.'', ''Truck is not available.'',
                 ''Invalid Driver ID. Driver does not exist.'', ''Driver is not available.'',
                 ''Invalid Client ID. Client does not exist.''}
         \<and> fst (snd (createShipment L b S)) = S
         \<and> set (snd (snd (createShipment L b S)))
              \<subseteq> range Op_Truck_findOne \<union> range Op_Driver_findOne \<union> range Op_Client_findOne)"
proof (cases rule: createShipment_paths[of L b S])
  case Invalid
  then show ?thesis by simp
next
  case (TruckReject m t1)
  from checkTruck_Reject[OF TruckReject(2)] check_ops(1)[OF TruckReject(2)] TruckReject(3)
  show ?thesis by auto
next
  case (TruckRaise e t1)
  from check_ops(1)[OF TruckRaise(2)] TruckRaise(3)
  show ?thesis by (auto simp: internalError_def)
next
  case (DriverReject m t1 t2)
  from checkDriver_Reject[OF DriverReject(3)] check_ops(1)[OF DriverReject(2)]
    check_ops(2)[OF DriverReject(3)] DriverReject(4)
  show ?thesis by auto
next
  case (DriverRaise e t1 t2)
  from check_ops(1)[OF DriverRaise(2)] check_ops(2)[OF DriverRaise(3)] DriverRaise(4)
  show ?thesis by (auto simp: internalError_def)
next
  case (ClientReject m t1 t2 t3)
  from checkClient_Reject[OF ClientReject(4)] check_ops(1)[OF ClientReject(2)]
    check_ops(2)[OF ClientReject(3)] check_ops(3)[OF ClientReject(4)] ClientReject(5)
  show ?thesis by auto
next
  case (ClientRaise e t1 t2 t3)
  from check_ops(1)[OF ClientRaise(2)] check_ops(2)[OF ClientRaise(3)]
    check_ops(3)[OF ClientRaise(4)] ClientRaise(5)
  show ?thesis by (auto simp: internalError_def)
next
  case (Created t1 t2 t3 doc assign)
  from checkTruck_Pass[OF Created(2)] checkDriver_Pass[OF Created(3)]
    checkClient_Pass[OF Created(4)] Created(7)
  show ?thesis by auto
qed

theorem createShipment_rejection_leaves_store_witness:
  "truthy (JNum 7)
   \<and> Driver_findOne stdLib store1 (JNum 7) = Inr None
   \<and> fst (createShipment stdLib (request1\<lparr>b_driverId := JNum 7\<rparr>) store1)
       = Response 400 (Failure ''Invalid Driver ID. Driver does not exist.'')
   \<and> fst (snd (createShipment stdLib (request1\<lparr>b_driverId := JNum 7\<rparr>) store1)) = store1
   \<and> shipments store1 = []"
proof -
  have d: "Driver_findOne stdLib store1 (b_driverId (request1\<lparr>b_driverId := JNum 7\<rparr>)) = Inr None"
    and r: "fst (createShipment stdLib (request1\<lparr>b_driverId := JNum 7\<rparr>) store1)
       = Response 400 (Failure ''Invalid Driver ID. Driver does not exist.'')"
    by code_simp+
  from createShipment_rejection_leaves_store [of "request1\<lparr>b_driverId := JNum 7\<rparr>" stdLib store1]
    d r
  show ?thesis by (simp add: store1_def)
qed


text \<open>
  C7. When the request has no \<^verbatim>\<open>truckId\<close>, no driver's \<^verbatim>\<open>assignedTruck\<close> is set to a
  truck: after the request every driver's \<^verbatim>\<open>assignedTruck\<close> is what it was before or
  is \<^verbatim>\<open>null\<close>. For a successful request that names a driver, that driver is marked
  \<^verbatim>\<open>Not Available\<close> and its \<^verbatim>\<open>assignedTruck\<close> is left as it was when the library drops
  the undefined key from the update, and is \<^verbatim>\<open>null\<close> otherwise.
\<close>

theorem createShipment_without_truck_assigns_none:
  "b_truckId b = JUndefined \<longrightarrow>
     list_all2 (\<lambda>d d'. d_assignedTruck d' = d_assignedTruck d \<or> d_assignedTruck d' = None)
       (drivers S) (drivers (fst (snd (createShipment L b S))))
     \<and> (\<forall>d. status (fst (createShipment L b S)) = 201 \<and> truthy (b_driverId b)
             \<and> Driver_findOne L S (b_driverId b) = Inr (Some d) \<longrightarrow>
           Driver_findOne L (fst (snd (createShipment L b S))) (b_driverId b)
             = Inr (Some (d\<lparr>d_availabilityStatus := JStr ''Not Available'',
                            d_assignedTruck :=
                              (if omitUndefined L then d_assignedTruck d else None)\<rparr>)))"
proof
  assume u: "b_truckId b = JUndefined"
  let ?R = "\<lambda>d d'. d_assignedTruck d' = d_assignedTruck d \<or> d_assignedTruck d' = None"
  have refl: "list_all2 ?R (drivers S) (drivers S)"
    by (simp add: list_all2_refl)
  show "list_all2 ?R (drivers S) (drivers (fst (snd (createShipment L b S))))
     \<and> (\<forall>d. status (fst (createShipment L b S)) = 201 \<and> truthy (b_driverId b)
             \<and> Driver_findOne L S (b_driverId b) = Inr (Some d) \<longrightarrow>
           Driver_findOne L (fst (snd (createShipment L b S))) (b_driverId b)
             = Inr (Some (d\<lparr>d_availabilityStatus := JStr ''Not Available'',
                            d_assignedTruck :=
                              (if omitUndefined L then d_assignedTruck d else None)\<rparr>)))"
  proof (cases rule: createShipment_paths[of L b S])
    case Invalid
    with refl show ?thesis by simp
  next
    case (TruckReject m t1)
    with refl show ?thesis by simp
  next
    case (TruckRaise e t1)
    with refl show ?thesis by (simp add: internalError_def)
  next
    case (DriverReject m t1 t2)
    with refl show ?thesis by simp
  next
    case (DriverRaise e t1 t2)
    with refl show ?thesis by (simp add: internalError_def)
  next
    case (ClientReject m t1 t2 t3)
    with refl show ?thesis by simp
  next
    case (ClientRaise e t1 t2 t3)
    with refl show ?thesis by (simp add: internalError_def)
  next
    case (Created t1 t2 t3 doc assign)
    from Created(6) u have assign:
      "assign = (\<lambda>d. if omitUndefined L then d else d\<lparr>d_assignedTruck := None\<rparr>)"
      by (simp add: setAssignedTruck_undefined)
    have all: "list_all2 ?R (drivers S) (drivers (fst (snd (createShipment L b S))))"
      using refl by (simp add: Created(7) assign list_all2_updateFirst)
    have one: "Driver_findOne L (fst (snd (createShipment L b S))) (b_driverId b)
         = Inr (Some (d\<lparr>d_availabilityStatus := JStr ''Not Available'',
                        d_assignedTruck := (if omitUndefined L then d_assignedTruck d else None)\<rparr>))"
      if td: "truthy (b_driverId b)" and fd: "Driver_findOne L S (b_driverId b) = Inr (Some d)" for d
    proof -
      from fd have cd: "castNumber L (b_driverId b) = CastNum (d_driverId d)"
        and fd': "find (\<lambda>x. d_driverId x = d_driverId d) (drivers S) = Some d"
        using findOneBy_Some[of L d_driverId "drivers S" "b_driverId b" d]
        by (simp_all add: Driver_findOne_def)
      show ?thesis
        using td cd fd'
        by (simp add: Created(7) assign Driver_findOne_def findOneBy_def find_updateFirst)
    qed
    from all one show ?thesis by blast
  qed
qed

theorem createShipment_without_truck_assigns_none_witness:
  "b_truckId (request1\<lparr>b_driverId := JNum 1\<rparr>) = JUndefined
   \<and> status (fst (createShipment stdLib (request1\<lparr>b_driverId := JNum 1\<rparr>) store1)) = 201
   \<and> truthy (JNum 1)
   \<and> Driver_findOne stdLib store1 (JNum 1) = Inr (Some driver1)
   \<and> d_assignedTruck driver1 = None
   \<and> Driver_findOne stdLib
        (fst (snd (createShipment stdLib (request1\<lparr>b_driverId := JNum 1\<rparr>) store1))) (JNum 1)
       = Inr (Some (driver1\<lparr>d_availabilityStatus := JStr ''Not Available''\<rparr>))"
proof -
  have u: "b_truckId (request1\<lparr>b_driverId := JNum 1\<rparr>) = JUndefined"
    by (simp add: request1_def)
  have s: "status (fst (createShipment stdLib (request1\<lparr>b_driverId := JNum 1\<rparr>) store1)) = 201"
    and d: "Driver_findOne stdLib store1 (b_driverId (request1\<lparr>b_driverId := JNum 1\<rparr>))
              = Inr (Some driver1)"
    and o: "omitUndefined stdLib"
    by code_simp+
  have a: "d_assignedTruck driver1 = None"
    by (simp add: driver1_def)
  from createShipment_without_truck_assigns_none
         [of "request1\<lparr>b_driverId := JNum 1\<rparr>" store1 stdLib] u s d o a
  show ?thesis by simp
qed


text \<open>
  C9. A request that passed the field validation and supplies neither \<^verbatim>\<open>truckId\<close> nor
  \<^verbatim>\<open>driverId\<close> changes no truck and no driver and issues no operation on either
  collection. If a shipment is created, it is the one appended to the shipments and its
  status is \<^verbatim>\<open>pending\<close> unless the request supplied a status, which it then carries.
  The shipment is created whenever the client check passes.
\<close>

theorem createShipment_without_truck_and_driver:
  assumes "validateCreateShipment L b = []"
    and "b_truckId b = JUndefined" and "b_driverId b = JUndefined"
  shows "trucks (fst (snd (createShipment L b S))) = trucks S
    \<and> drivers (fst (snd (createShipment L b S))) = drivers S
    \<and> set (snd (snd (createShipment L b S)))
         \<inter> (range Op_Truck_findOne \<union> range Op_Truck_updateOne
            \<union> range Op_Driver_findOne \<union> range Op_Driver_updateOne) = {}
    \<and> (\<forall>msg shipment. fst (createShipment L b S) = Response 201 (Created msg shipment) \<longrightarrow>
          s_status shipment = (if b_status b = JUndefined then JStr ''pending'' else b_status b)
          \<and> shipments (fst (snd (createShipment L b S))) = shipments S @ [shipment])
    \<and> (\<not> truthy (b_clientId b) \<or> (\<exists>c. Client_findOne L S (b_clientId b) = Inr (Some c)) \<longrightarrow>
          status (fst (createShipment L b S)) = 201)"
proof -
  have pt: "checkTruck L S (b_truckId b) = (Pass, [])"
    and pd: "checkDriver L S (b_driverId b) = (Pass, [])"
    using assms(2,3) by (simp_all add: check_falsy)
  show ?thesis
  proof (cases rule: createShipment_paths[of L b S])
    case Invalid
    with assms(1) show ?thesis by simp
  next
    case (TruckReject m t1)
    with pt show ?thesis by simp
  next
    case (TruckRaise e t1)
    with pt show ?thesis by simp
  next
    case (DriverReject m t1 t2)
    with pd show ?thesis by simp
  next
    case (DriverRaise e t1 t2)
    with pd show ?thesis by simp
  next
    case (ClientReject m t1 t2 t3)
    from checkClient_Reject[OF ClientReject(4)] ClientReject(2,3,5) pt pd
    show ?thesis by auto
  next
    case (ClientRaise e t1 t2 t3)
    from checkClient_Raise[OF ClientRaise(4)] ClientRaise(2,3,5) pt pd
    show ?thesis by (auto simp: internalError_def)
  next
    case (Created t1 t2 t3 doc assign)
    from Shipment_new_fields[OF Created(5)] check_ops(3)[OF Created(4)]
      Created(2,3,7) pt pd assms(2,3)
    show ?thesis by (auto simp: fst_Shipment_save)
  qed
qed

theorem createShipment_without_truck_and_driver_witness:
  "validateCreateShipment stdLib request1 = []
   \<and> b_truckId request1 = JUndefined \<and> b_driverId request1 = JUndefined
   \<and> b_status request1 = JUndefined
   \<and> Client_findOne stdLib store1 (b_clientId request1) = Inr (Some client1)
   \<and> fst (createShipment stdLib request1 store1)
       = Response 201 (Created ''Shipment created successfully.'' shipment1)
   \<and> s_status shipment1 = JStr ''pending''
   \<and> shipments (fst (snd (createShipment stdLib request1 store1))) = shipments store1 @ [shipment1]
   \<and> trucks (fst (snd (createShipment stdLib request1 store1))) = trucks store1
   \<and> drivers (fst (snd (createShipment stdLib request1 store1))) = drivers store1"
proof -
  have v: "validateCreateShipment stdLib request1 = []"
    and c: "Client_findOne stdLib store1 (b_clientId request1) = Inr (Some client1)"
    and r: "fst (createShipment stdLib request1 store1)
       = Response 201 (Created ''Shipment created successfully.'' shipment1)"
    by code_simp+
  have u: "b_truckId request1 = JUndefined" "b_driverId request1 = JUndefined"
    "b_status request1 = JUndefined"
    by (simp_all add: request1_def)
  from createShipment_without_truck_and_driver [OF v u(1,2), of store1] v c r u
  show ?thesis by simp
qed


text \<open>
  C10. An id that is the number 0 is not truthy, so its check is skipped. With
  \<^verbatim>\<open>truckId\<close> 0 no truck is looked up or updated and the trucks are as before; the same
  for \<^verbatim>\<open>driverId\<close> 0 and the drivers. With \<^verbatim>\<open>clientId\<close> 0 no client is looked up,
  and the shipment is created, with client 0, whenever the request passed the field
  validation and the truck and driver checks, whether or not a client 0 exists.
\<close>

theorem createShipment_zero_id_skips_check:
  "(b_truckId b = JNum 0 \<longrightarrow>
      set (snd (snd (createShipment L b S)))
        \<inter> (range Op_Truck_findOne \<union> range Op_Truck_updateOne) = {}
      \<and> trucks (fst (snd (createShipment L b S))) = trucks S)
   \<and> (b_driverId b = JNum 0 \<longrightarrow>
      set (snd (snd (createShipment L b S)))
        \<inter> (range Op_Driver_findOne \<union> range Op_Driver_updateOne) = {}
      \<and> drivers (fst (snd (createShipment L b S))) = drivers S)
   \<and> (b_clientId b = JNum 0 \<longrightarrow>
      set (snd (snd (createShipment L b S))) \<inter> range Op_Client_findOne = {}
      \<and> (validateCreateShipment L b = []
          \<and> (\<not> truthy (b_truckId b)
              \<or> (\<exists>t. Truck_findOne L S (b_truckId b) = Inr (Some t)
                      \<and> t_availabilityStatus t = JStr ''Available''))
          \<and> (\<not> truthy (b_driverId b)
              \<or> (\<exists>d. Driver_findOne L S (b_driverId b) = Inr (Some d)
                      \<and> d_availabilityStatus d = JStr ''Available''))
          \<longrightarrow> (\<exists>shipment.
                 fst (createShipment L b S)
                   = Response 201 (Created ''Shipment created successfully.'' shipment)
                 \<and> s_clientId shipment = Some 0
                 \<and> shipment \<in> set (shipments (fst (snd (createShipment L b S)))))))"
proof -
  have pt: "b_truckId b = JNum 0 \<Longrightarrow> checkTruck L S (b_truckId b) = (Pass, [])"
    and pd: "b_driverId b = JNum 0 \<Longrightarrow> checkDriver L S (b_driverId b) = (Pass, [])"
    and pc: "b_clientId b = JNum 0 \<Longrightarrow> checkClient L S (b_clientId b) = (Pass, [])"
    by (simp_all add: check_falsy)
  show ?thesis
  proof (cases rule: createShipment_paths[of L b S])
    case Invalid
    then show ?thesis by simp
  next
    case (TruckReject m t1)
    from checkTruck_Reject[OF TruckReject(2)] TruckReject(3) pt
    show ?thesis by auto
  next
    case (TruckRaise e t1)
    from checkTruck_Raise[OF TruckRaise(2)] TruckRaise(3) pt
    show ?thesis by auto
  next
    case (DriverReject m t1 t2)
    from checkDriver_Reject[OF DriverReject(3)] checkTruck_Pass[OF DriverReject(2)]
      DriverReject(4) pt pd
    show ?thesis by auto
  next
    case (DriverRaise e t1 t2)
    from checkDriver_Raise[OF DriverRaise(3)] checkTruck_Pass[OF DriverRaise(2)]
      DriverRaise(4) pt pd
    show ?thesis by auto
  next
    case (ClientReject m t1 t2 t3)
    from checkClient_Reject[OF ClientReject(4)] checkTruck_Pass[OF ClientReject(2)]
      checkDriver_Pass[OF ClientReject(3)] ClientReject(5) pt pd pc
    show ?thesis by auto
  next
    case (ClientRaise e t1 t2 t3)
    from checkClient_Raise[OF ClientRaise(4)] checkTruck_Pass[OF ClientRaise(2)]
      checkDriver_Pass[OF ClientRaise(3)] ClientRaise(5) pt pd pc
    show ?thesis by auto
  next
    case (Created t1 t2 t3 doc assign)
    from Shipment_new_fields[OF Created(5)] checkTruck_Pass[OF Created(2)]
      checkDriver_Pass[OF Created(3)] checkClient_Pass[OF Created(4)] Created(7)
    show ?thesis by (auto simp: fst_Shipment_save)
  qed
qed

theorem createShipment_zero_id_skips_check_witness:
  "validateCreateShipment stdLib
     (request1\<lparr>b_clientId := JNum 0, b_truckId := JNum 0, b_driverId := JNum 0\<rparr>) = []
   \<and> Client_findOne stdLib store1 (JNum 0) = Inr None
   \<and> Truck_findOne stdLib store1 (JNum 0) = Inr None
   \<and> status (fst (createShipment stdLib
        (request1\<lparr>b_clientId := JNum 0, b_truckId := JNum 0, b_driverId := JNum 0\<rparr>) store1)) = 201
   \<and> snd (snd (createShipment stdLib
        (request1\<lparr>b_clientId := JNum 0, b_truckId := JNum 0, b_driverId := JNum 0\<rparr>) store1))
       = [Op_Shipment_save]
   \<and> trucks (fst (snd (createShipment stdLib
        (request1\<lparr>b_clientId := JNum 0, b_truckId := JNum 0, b_driverId := JNum 0\<rparr>) store1)))
       = trucks store1
   \<and> drivers (fst (snd (createShipment stdLib
        (request1\<lparr>b_clientId := JNum 0, b_truckId := JNum 0, b_driverId := JNum 0\<rparr>) store1)))
       = drivers store1"
proof -
  have v: "validateCreateShipment stdLib
     (request1\<lparr>b_clientId := JNum 0, b_truckId := JNum 0, b_driverId := JNum 0\<rparr>) = []"
    and c: "Client_findOne stdLib store1 (JNum 0) = Inr None"
    and t: "Truck_findOne stdLib store1 (JNum 0) = Inr None"
    and o: "snd (snd (createShipment stdLib
        (request1\<lparr>b_clientId := JNum 0, b_truckId := JNum 0, b_driverId := JNum 0\<rparr>) store1))
       = [Op_Shipment_save]"
    by code_simp+
  from createShipment_zero_id_skips_check
    [of "request1\<lparr>b_clientId := JNum 0, b_truckId := JNum 0, b_driverId := JNum 0\<rparr>" stdLib store1]
    v c t o
  show ?thesis by auto
qed


section \<open>Field validation of createShipment\<close>

text \<open>
  A request that fails the field validation is answered 400 with the list of all errors
  before any check or write: no store operation is issued and the store is unchanged
  (\<open>createShipment_invalid\<close>). The list holds an error for each validator that a field
  fails.
\<close>

lemma validateCreateShipment_lists_every_violation:
  "(\<not> isNumeric L (b_clientId b) \<longrightarrow>
      \<lparr>err_path = ''clientId'', err_msg = ''Client ID must be an integer.'',
       err_value = b_clientId b\<rparr> \<in> set (validateCreateShipment L b))
   \<and> (\<not> isString L (b_shipmentName b) \<longrightarrow>
      \<lparr>err_path = ''shipmentName'', err_msg = ''Shipment Name is required.'',
       err_value = b_shipmentName b\<rparr> \<in> set (validateCreateShipment L b))
   \<and> (\<not> isString L (b_pickupLocation b) \<longrightarrow>
      \<lparr>err_path = ''pickupLocation'', err_msg = ''Invalid value'',
       err_value = b_pickupLocation b\<rparr> \<in> set (validateCreateShipment L b))
   \<and> (\<not> notEmpty L (b_pickupLocation b) \<longrightarrow>
      \<lparr>err_path = ''pickupLocation'', err_msg = ''Pickup location is required.'',
       err_value = b_pickupLocation b\<rparr> \<in> set (validateCreateShipment L b))
   \<and> (\<not> isString L (b_deliveryLocation b) \<longrightarrow>
      \<lparr>err_path = ''deliveryLocation'', err_msg = ''Invalid value'',
       err_value = b_deliveryLocation b\<rparr> \<in> set (validateCreateShipment L b))
   \<and> (\<not> notEmpty L (b_deliveryLocation b) \<longrightarrow>
      \<lparr>err_path = ''deliveryLocation'', err_msg = ''Delivery location is required.'',
       err_value = b_deliveryLocation b\<rparr> \<in> set (validateCreateShipment L b))
   \<and> (\<not> isString L (b_cargoType b) \<longrightarrow>
      \<lparr>err_path = ''cargoType'', err_msg = ''Invalid value'',
       err_value = b_cargoType b\<rparr> \<in> set (validateCreateShipment L b))
   \<and> (\<not> notEmpty L (b_cargoType b) \<longrightarrow>
      \<lparr>err_path = ''cargoType'', err_msg = ''Cargo type is required.'',
       err_value = b_cargoType b\<rparr> \<in> set (validateCreateShipment L b))
   \<and> (\<not> isFloat_gt0 L (b_cargoWeight b) \<longrightarrow>
      \<lparr>err_path = ''cargoWeight'', err_msg = ''Cargo weight must be a positive number.'',
       err_value = b_cargoWeight b\<rparr> \<in> set (validateCreateShipment L b))
   \<and> (\<not> isISO8601 L (b_departureDate b) \<longrightarrow>
      \<lparr>err_path = ''departureDate'', err_msg = ''Departure date must be a valid date.'',
       err_value = b_departureDate b\<rparr> \<in> set (validateCreateShipment L b))
   \<and> (\<not> isISO8601 L (b_arrivalDate b) \<longrightarrow>
      \<lparr>err_path = ''arrivalDate'', err_msg = ''Arrival date must be a valid date.'',
       err_value = b_arrivalDate b\<rparr> \<in> set (validateCreateShipment L b))
   \<and> (b_truckId b \<noteq> JUndefined \<and> \<not> isNumeric L (b_truckId b) \<longrightarrow>
      \<lparr>err_path = ''truckId'', err_msg = ''Truck ID must be a valid MongoDB ObjectId.'',
       err_value = b_truckId b\<rparr> \<in> set (validateCreateShipment L b))
   \<and> (b_driverId b \<noteq> JUndefined \<and> \<not> isNumeric L (b_driverId b) \<longrightarrow>
      \<lparr>err_path = ''driverId'', err_msg = ''Driver ID must be a valid MongoDB ObjectId.'',
       err_value = b_driverId b\<rparr> \<in> set (validateCreateShipment L b))"
  by (simp add: validateCreateShipment_def runChain_def Invalid_value_def)

text \<open>No chain of \<^verbatim>\<open>createShipment\<close> reads \<^verbatim>\<open>status\<close> or \<^verbatim>\<open>specialInstructions\<close>.\<close>

lemma validateCreateShipment_ignores_status:
  "validateCreateShipment L (b\<lparr>b_status := s\<rparr>) = validateCreateShipment L b"
  "validateCreateShipment L (b\<lparr>b_specialInstructions := i\<rparr>) = validateCreateShipment L b"
  by (simp_all add: validateCreateShipment_def)

text \<open>
  C4 fails on the code for the status. The request is \<open>request1\<close> with the status
  \<^verbatim>\<open>shipped\<close>, which is none of \<^verbatim>\<open>pending\<close>, \<^verbatim>\<open>delivered\<close>, \<^verbatim>\<open>cancelled\<close>. Its list
  of validation errors is empty, the handler goes on to the client check and to the save,
  and the shipment is stored with the status \<^verbatim>\<open>shipped\<close>. The chain for \<^verbatim>\<open>status\<close> of
  \<^verbatim>\<open>updateShipment\<close> does reject the same value.
\<close>

theorem createShipment_status_not_validated:
  "validateCreateShipment stdLib (request1\<lparr>b_status := JStr ''shipped''\<rparr>) = []
   \<and> createShipment stdLib (request1\<lparr>b_status := JStr ''shipped''\<rparr>) store1
       = (Response 201 (Created ''Shipment created successfully.''
                          (shipment1\<lparr>s_status := JStr ''shipped''\<rparr>)),
          store1\<lparr>shipments := [shipment1\<lparr>s_status := JStr ''shipped''\<rparr>],
                  counters := [(''shipmentId'', 1)]\<rparr>,
          [Op_Client_findOne (JNum 1), Op_Shipment_save])
   \<and> validateUpdateShipment stdLib (emptyBody\<lparr>b_status := JStr ''shipped''\<rparr>)
       = [\<lparr>err_path = ''status'',
           err_msg = ''Status must be 'pending', 'delivered', or 'cancelled'.'',
           err_value = JStr ''shipped''\<rparr>]"
  by code_simp

section \<open>Properties of the other handlers\<close>

lemma find_False: "find (\<lambda>d. False) docs = None"
  by (induction docs) simp_all

lemma findOneBy_ref:
  "findOneBy L key docs (ref r) = Inr (find (\<lambda>d. Some (key d) = r) docs)"
  by (cases r) (simp_all add: findOneBy_def find_False)

lemma Promise_all_map_Inr:
  "(\<And>x. x \<in> set xs \<Longrightarrow> f x = Inr (g x)) \<Longrightarrow> Promise_all (map f xs) = Inr (map g xs)"
  by (induction xs) simp_all

lemma Promise_all_Inl:
  "Inl e \<in> set ps \<Longrightarrow> \<exists>e'. Promise_all ps = Inl e'"
proof (induction ps)
  case Nil
  then show ?case by simp
next
  case (Cons p ps)
  then show ?case by (cases p) (auto split: sum.splits)
qed

lemma populate_eq:
  "populate L S s =
     (case find (\<lambda>c. Some (c_clientId c) = s_clientId s) (clients S) of
        None \<Rightarrow> Inl TypeError
      | Some c \<Rightarrow>
          Inr \<lparr>p_shipment = s,
               p_truck = find (\<lambda>t. Some (t_truckId t) = s_truckId s) (trucks S),
               p_driver = find (\<lambda>d. Some (d_driverId d) = s_driverId s) (drivers S),
               p_clientName = c_clientName c\<rparr>)"
  by (simp add: populate_def Truck_findOne_def Driver_findOne_def Client_findOne_def
        findOneBy_ref split: option.splits)

text \<open>
  C8. When some shipment's \<^verbatim>\<open>clientId\<close> matches no client, \<^verbatim>\<open>client.clientName\<close> throws
  and \<^verbatim>\<open>getAllShipments\<close> answers 500. When every shipment's client exists, the answer
  is 200 with each shipment merged with its truck and its driver (each \<^verbatim>\<open>null\<close> when
  none matches) and the name of its client.
\<close>

theorem getAllShipments_missing_client:
  "((\<exists>s \<in> set (shipments S). \<forall>c \<in> set (clients S). Some (c_clientId c) \<noteq> s_clientId s) \<longrightarrow>
      getAllShipments L S = Response 500 (Error ''An internal server error occurred.''))
   \<and> ((\<forall>s \<in> set (shipments S). \<exists>c \<in> set (clients S). Some (c_clientId c) = s_clientId s) \<longrightarrow>
      getAllShipments L S =
        Response 200 (Shipments (map (\<lambda>s.
          \<lparr>p_shipment = s,
           p_truck = find (\<lambda>t. Some (t_truckId t) = s_truckId s) (trucks S),
           p_driver = find (\<lambda>d. Some (d_driverId d) = s_driverId s) (drivers S),
           p_clientName =
             c_clientName (the (find (\<lambda>c. Some (c_clientId c) = s_clientId s) (clients S)))\<rparr>)
          (shipments S))))"
proof (intro conjI impI)
  assume "\<exists>s \<in> set (shipments S). \<forall>c \<in> set (clients S). Some (c_clientId c) \<noteq> s_clientId s"
  then obtain s where s: "s \<in> set (shipments S)"
    and none: "find (\<lambda>c. Some (c_clientId c) = s_clientId s) (clients S) = None"
    by (auto simp: find_None_iff)
  from none have "populate L S s = Inl TypeError"
    by (simp add: populate_eq)
  with s have "Inl TypeError \<in> set (map (populate L S) (shipments S))"
    by force
  then obtain e where "Promise_all (map (populate L S) (shipments S)) = Inl e"
    using Promise_all_Inl by blast
  then show "getAllShipments L S = Response 500 (Error ''An internal server error occurred.'')"
    by (simp add: getAllShipments_def internalError_def)
next
  let ?g = "\<lambda>s. \<lparr>p_shipment = s,
           p_truck = find (\<lambda>t. Some (t_truckId t) = s_truckId s) (trucks S),
           p_driver = find (\<lambda>d. Some (d_driverId d) = s_driverId s) (drivers S),
           p_clientName =
             c_clientName (the (find (\<lambda>c. Some (c_clientId c) = s_clientId s) (clients S)))\<rparr>"
  assume all: "\<forall>s \<in> set (shipments S). \<exists>c \<in> set (clients S). Some (c_clientId c) = s_clientId s"
  have "populate L S s = Inr (?g s)" if "s \<in> set (shipments S)" for s
  proof -
    from all that have "find (\<lambda>c. Some (c_clientId c) = s_clientId s) (clients S) \<noteq> None"
      by (auto simp: find_None_iff)
    then show ?thesis
      by (auto simp: populate_eq)
  qed
  then have "Promise_all (map (populate L S) (shipments S)) = Inr (map ?g (shipments S))"
    by (rule Promise_all_map_Inr)
  then show "getAllShipments L S = Response 200 (Shipments (map ?g (shipments S)))"
    by (simp add: getAllShipments_def)
qed

theorem getAllShipments_missing_client_witness:
  "shipments (store1\<lparr>shipments := [shipment1, shipment1\<lparr>s_shipmentId := 2, s_clientId := Some 9\<rparr>]\<rparr>)
     = [shipment1, shipment1\<lparr>s_shipmentId := 2, s_clientId := Some 9\<rparr>]
   \<and> map c_clientId (clients store1) = [1]
   \<and> s_clientId shipment1 = Some 1
   \<and> getAllShipments stdLib
        (store1\<lparr>shipments := [shipment1, shipment1\<lparr>s_shipmentId := 2, s_clientId := Some 9\<rparr>]\<rparr>)
       = Response 500 (Error ''An internal server error occurred.'')
   \<and> getAllShipments stdLib (store1\<lparr>shipments := [shipment1]\<rparr>)
       = Response 200 (Shipments
           [\<lparr>p_shipment = shipment1, p_truck = None, p_driver = None,
             p_clientName = JStr ''Acme''\<rparr>])"
proof -
  have c: "clients store1 = [client1]" "c_clientId client1 = 1" "s_clientId shipment1 = Some 1"
    "s_truckId shipment1 = None" "s_driverId shipment1 = None"
    "c_clientName client1 = JStr ''Acme''"
    by (simp_all add: store1_def client1_def shipment1_def)
  from getAllShipments_missing_client
         [of "store1\<lparr>shipments := [shipment1, shipment1\<lparr>s_shipmentId := 2, s_clientId := Some 9\<rparr>]\<rparr>" stdLib]
       getAllShipments_missing_client [of "store1\<lparr>shipments := [shipment1]\<rparr>" stdLib] c
  show ?thesis by (simp add: find_None_iff)
qed

section \<open>Absent targets\<close>

text \<open>
  \<^verbatim>\<open>getShipmentById\<close>, \<^verbatim>\<open>deleteShipment\<close> and \<^verbatim>\<open>deleteDriverById\<close> test the result of
  the lookup before they use it, and answer 404 when the target is absent.
\<close>

lemma getShipmentById_absent:
  "Shipment_findOne L S shipmentId = Inr None \<Longrightarrow>
     getShipmentById L shipmentId S = Response 404 (Error ''Shipment not found.'')"
  by (simp add: getShipmentById_def)

lemma deleteShipment_absent:
  "Shipment_findOne L S id' = Inr None \<Longrightarrow>
     deleteShipment L id' S = (Response 404 (Error ''Shipment not found.''), S)"
  by (simp add: deleteShipment_def Shipment_findOneAndDelete_def)

lemma deleteDriverById_absent:
  "validateDriverId L driverId = [] \<Longrightarrow> Driver_findOne L S driverId = Inr None \<Longrightarrow>
     deleteDriverById L driverId S = (Response 404 (Error ''Driver not found.''), S)"
  by (simp add: deleteDriverById_def Driver_findOneAndDelete_def)

text \<open>
  \<^verbatim>\<open>updateShipment\<close>, \<^verbatim>\<open>getDriverById\<close> and \<^verbatim>\<open>updateDriverById\<close> read a property of
  the result before they test it. For an absent target the read throws, and the answer is
  500; the branch that answers 404 is never taken.
\<close>

lemma updateShipment_absent:
  "validateUpdateShipment L b = [] \<Longrightarrow> Shipment_findOne L S id' = Inr None \<Longrightarrow>
     updateShipment L id' b S = (internalError, S)"
  by (simp add: updateShipment_def Shipment_findOneAndUpdate_def split: sum.splits)

lemma getDriverById_absent:
  "validateDriverId L driverId = [] \<Longrightarrow> Driver_findOne L S driverId = Inr None \<Longrightarrow>
     getDriverById L driverId S = internalError"
  by (simp add: getDriverById_def)

lemma updateDriverById_absent:
  "validateUpdateDriver L driverId b = [] \<Longrightarrow> Driver_findOne L S driverId = Inr None \<Longrightarrow>
     updateDriverById L driverId b S = (internalError, S)"
  by (simp add: updateDriverById_def Driver_findOneAndUpdate_def split: sum.splits)

lemma never_404:
  "status (fst (updateShipment L id' sb S)) \<noteq> 404"
  "status (getDriverById L driverId S) \<noteq> 404"
  "status (fst (updateDriverById L driverId db S)) \<noteq> 404"
  by (auto simp: updateShipment_def getDriverById_def updateDriverById_def Let_def
        internalError_def split: sum.splits prod.splits option.splits)

text \<open>
  C5 fails on the code. In \<open>store1\<close> there is no shipment and no driver with id 99. The
  three handlers the claim names answer 500 for it; the three other handlers by id answer
  404.
\<close>

theorem absent_target_answers_500:
  "Shipment_findOne stdLib store1 (JStr ''99'') = Inr None
   \<and> Driver_findOne stdLib store1 (JStr ''99'') = Inr None
   \<and> updateShipment stdLib (JStr ''99'') emptyBody store1
       = (Response 500 (Error ''An internal server error occurred.''), store1)
   \<and> getDriverById stdLib (JStr ''99'') store1
       = Response 500 (Error ''An internal server error occurred.'')
   \<and> updateDriverById stdLib (JStr ''99'') emptyDriverBody store1
       = (Response 500 (Error ''An internal server error occurred.''), store1)
   \<and> getShipmentById stdLib (JStr ''99'') store1 = Response 404 (Error ''Shipment not found.'')
   \<and> deleteShipment stdLib (JStr ''99'') store1
       = (Response 404 (Error ''Shipment not found.''), store1)
   \<and> deleteDriverById stdLib (JStr ''99'') store1
       = (Response 404 (Error ''Driver not found.''), store1)"
  by code_simp

section \<open>Properties of the Sequence Generator\<close>

lemma map_of_Counter_findOneAndUpdate:
  "map_of (snd (Counter_findOneAndUpdate key C))
     = (map_of C)(key \<mapsto> fst (Counter_findOneAndUpdate key C))"
  by (simp add: Counter_findOneAndUpdate_def Let_def update_conv')

lemma generate_values:
  "fst (generate n key C)
     = map (\<lambda>i. (case map_of C key of None \<Rightarrow> 0 | Some m \<Rightarrow> m) + 1 + int i) [0..<n]"
proof (induction n arbitrary: C)
  case 0
  show ?case by simp
next
  case (Suc n)
  let ?v = "fst (Counter_findOneAndUpdate key C)"
  let ?C1 = "snd (Counter_findOneAndUpdate key C)"
  have v: "?v = (case map_of C key of None \<Rightarrow> 0 | Some m \<Rightarrow> m) + 1"
    by (simp add: Counter_findOneAndUpdate_def Let_def split: option.splits)
  have "fst (generate (Suc n) key C) = ?v # fst (generate n key ?C1)"
    by (simp add: case_prod_beta)
  also have "fst (generate n key ?C1) = map (\<lambda>i. ?v + 1 + int i) [0..<n]"
    by (simp add: Suc.IH map_of_Counter_findOneAndUpdate)
  also have "?v # map (\<lambda>i. ?v + 1 + int i) [0..<n] = map (\<lambda>i. ?v + int i) [0..<Suc n]"
    by (simp add: upt_conv_Cons map_Suc_upt [symmetric] del: upt_Suc)
  finally show ?case by (simp only: v)
qed

text \<open>
  C6. The Sequence Generator is the \<^verbatim>\<open>findOneAndUpdate\<close> of the pre-save hook. The first
  use of a key yields 1; a call yields one more than the call before it for the same key;
  a call for another key in between changes nothing for this key; \<open>n\<close> calls on a fresh
  key yield 1, ..., \<open>n\<close>; and the values of successive calls are strictly increasing
  from any state of the counters, so that none is used twice. The hook of a Bill assigns
  \<^verbatim>\<open>billId\<close> from the key \<^verbatim>\<open>billId\<close> when the document is new, and leaves the document
  and the counters as they are when it is not.
\<close>

theorem sequence_generator_increasing:
  "(map_of C key = None \<longrightarrow> fst (Counter_findOneAndUpdate key C) = 1)
   \<and> fst (Counter_findOneAndUpdate key (snd (Counter_findOneAndUpdate key C)))
       = fst (Counter_findOneAndUpdate key C) + 1
   \<and> (key' \<noteq> key \<longrightarrow>
        fst (Counter_findOneAndUpdate key (snd (Counter_findOneAndUpdate key' C)))
          = fst (Counter_findOneAndUpdate key C))
   \<and> (map_of C key = None \<longrightarrow> fst (generate n key C) = map int [1..<Suc n])
   \<and> sorted_wrt (<) (fst (generate n key C))
   \<and> Bill_preSave True this C
       = (this\<lparr>bl_billId := fst (Counter_findOneAndUpdate ''billId'' C)\<rparr>,
          snd (Counter_findOneAndUpdate ''billId'' C))
   \<and> Bill_preSave False this C = (this, C)"
proof (intro conjI impI)
  assume "map_of C key = None"
  then show "fst (Counter_findOneAndUpdate key C) = 1"
    by (simp add: Counter_findOneAndUpdate_def)
next
  show "fst (Counter_findOneAndUpdate key (snd (Counter_findOneAndUpdate key C)))
       = fst (Counter_findOneAndUpdate key C) + 1"
    by (simp add: Counter_findOneAndUpdate_def Let_def update_conv')
next
  assume "key' \<noteq> key"
  then show "fst (Counter_findOneAndUpdate key (snd (Counter_findOneAndUpdate key' C)))
          = fst (Counter_findOneAndUpdate key C)"
    by (simp add: Counter_findOneAndUpdate_def Let_def update_conv')
next
  assume "map_of C key = None"
  then have "fst (generate n key C) = map (\<lambda>i. 1 + int i) [0..<n]"
    by (simp add: generate_values)
  also have "\<dots> = map int (map Suc [0..<n])"
    by simp
  also have "map Suc [0..<n] = [1..<Suc n]"
    by (simp add: map_Suc_upt)
  finally show "fst (generate n key C) = map int [1..<Suc n]" .
next
  show "sorted_wrt (<) (fst (generate n key C))"
    by (simp add: generate_values sorted_wrt_map sorted_wrt_iff_nth_less)
next
  show "Bill_preSave True this C
       = (this\<lparr>bl_billId := fst (Counter_findOneAndUpdate ''billId'' C)\<rparr>,
          snd (Counter_findOneAndUpdate ''billId'' C))"
    by (simp add: Bill_preSave_def case_prod_beta)
next
  show "Bill_preSave False this C = (this, C)"
    by (simp add: Bill_preSave_def)
qed

theorem sequence_generator_increasing_witness:
  "map_of [] ''billId'' = (None :: int option)
   \<and> ''shipmentId'' \<noteq> ''billId''
   \<and> fst (Counter_findOneAndUpdate ''billId'' []) = 1
   \<and> fst (Counter_findOneAndUpdate ''billId'' (snd (Counter_findOneAndUpdate ''billId'' []))) = 2
   \<and> fst (Counter_findOneAndUpdate ''billId'' (snd (Counter_findOneAndUpdate ''shipmentId'' []))) = 1
   \<and> fst (generate 3 ''billId'' []) = [1, 2, 3]
   \<and> bl_billId (fst (Bill_preSave True bill0 [])) = 1"
proof -
  have n: "map int [1..<Suc 3] = [1, 2, 3]"
    by code_simp
  from sequence_generator_increasing [of "[]" "''billId''" "''shipmentId''" 3 bill0] n
  show ?thesis by simp
qed

end
